theory Spec2Isabelle
  imports Main "HOL-Library.Word" "HOL-Library.Sublist"
begin

section \<open>Python values used by prreviewer.py\<close>

text \<open>
  The program is the script \<open>src/prreviewer.py\<close>; line numbers refer to it.  (The older
  script \<open>pr-reviewer.py\<close> has the same functions without the token limits and the
  \<open>DEBUG\<close> flag, and ends in a loop without a body.)

  A Python \<open>str\<close> is a sequence of Unicode code points (\<open>len\<close> counts code points), so it
  is modelled as a list of natural numbers; every code point of a \<open>str\<close> is below
  \<open>0x110000\<close>, and lone surrogates (\<open>0xD800\<close> to \<open>0xDFFF\<close>) may occur in it.
  A \<open>bytes\<close> value is a list of 8-bit words.  \<open>lit\<close> turns an ASCII literal of the
  source into its code points.
\<close>

type_synonym pystr = "nat list"
type_synonym byte = "8 word"

definition lit :: "string \<Rightarrow> pystr" where
  "lit s = map of_char s"

text \<open>
  The value of \<open>response.json()\<close>.  Numbers are restricted to integers; no function of
  the program inspects a number.  \<open>JObj\<close> holds the items of the parsed \<open>dict\<close> (keys
  distinct, in insertion order).
\<close>

datatype json =
    JNull
  | JBool bool
  | JNum int
  | JStr pystr
  | JArr "json list"
  | JObj "(pystr \<times> json) list"

text \<open>
  Exceptions are values.  \<open>Exception\<close> carries the message built by the program,
  \<open>KeyError\<close> the missing key, \<open>SystemExit\<close> the argument of \<open>exit\<close>; the others are
  raised by the standard library (\<open>BinasciiError\<close> is \<open>binascii.Error\<close>,
  \<open>RequestException\<close> stands for every exception of \<open>requests.get\<close> itself).
\<close>

datatype exc =
    Exception pystr
  | KeyError pystr
  | TypeError
  | ValueError
  | BinasciiError
  | UnicodeEncodeError
  | UnicodeDecodeError
  | JSONDecodeError
  | RequestException
  | SystemExit int

text \<open>\<open>str(n)\<close> for an \<open>int\<close>: the decimal digits, with a minus sign when negative.\<close>

fun str_nat :: "nat \<Rightarrow> pystr" where
  "str_nat n = (if n < 10 then [48 + n] else str_nat (n div 10) @ [48 + n mod 10])"

declare str_nat.simps [simp del]

definition str_int :: "int \<Rightarrow> pystr" where
  "str_int i = (if i < 0 then 45 # str_nat (nat (- i)) else str_nat (nat i))"

definition str_bool :: "bool \<Rightarrow> pystr" where
  "str_bool b = (if b then lit ''True'' else lit ''False'')"

text \<open>
  \<open>v[key]\<close> with a string key: only a \<open>dict\<close> can answer, a missing key raises
  \<open>KeyError\<close>, and every other JSON value raises \<open>TypeError\<close>.
\<close>

definition py_getitem :: "json \<Rightarrow> pystr \<Rightarrow> exc + json" where
  "py_getitem v key =
     (case v of
        JObj items \<Rightarrow> (case map_of items key of None \<Rightarrow> Inl (KeyError key) | Some x \<Rightarrow> Inr x)
      | _ \<Rightarrow> Inl TypeError)"

text \<open>
  The values a \<open>for\<close> loop visits: the elements of a list, the keys of a \<open>dict\<close>, the
  characters of a \<open>str\<close>; \<open>None\<close>, booleans and numbers are not iterable.
\<close>

definition py_iter :: "json \<Rightarrow> exc + json list" where
  "py_iter v =
     (case v of
        JArr xs \<Rightarrow> Inr xs
      | JObj items \<Rightarrow> Inr (map (\<lambda>kv. JStr (fst kv)) items)
      | JStr s \<Rightarrow> Inr (map (\<lambda>c. JStr [c]) s)
      | _ \<Rightarrow> Inl TypeError)"

section \<open>UTF-8 and base64, as \<open>str.encode\<close>, \<open>bytes.decode\<close> and \<open>base64\<close> compute them\<close>

text \<open>
  \<open>s.encode('utf-8')\<close>: one to four bytes per code point; a surrogate code point raises
  \<open>UnicodeEncodeError\<close>.  (The last branch is unreachable for a Python \<open>str\<close>.)
\<close>

definition utf8_encode_char :: "nat \<Rightarrow> exc + byte list" where
  "utf8_encode_char c =
     (if c < 0x80 then Inr [of_nat c]
      else if c < 0x800 then Inr [of_nat (0xC0 + c div 64), of_nat (0x80 + c mod 64)]
      else if c < 0x10000 then
        (if 0xD800 \<le> c \<and> c \<le> 0xDFFF then Inl UnicodeEncodeError
         else Inr [of_nat (0xE0 + c div 4096), of_nat (0x80 + c div 64 mod 64),
                   of_nat (0x80 + c mod 64)])
      else if c < 0x110000 then
        Inr [of_nat (0xF0 + c div 262144), of_nat (0x80 + c div 4096 mod 64),
             of_nat (0x80 + c div 64 mod 64), of_nat (0x80 + c mod 64)]
      else Inl UnicodeEncodeError)"

fun utf8_encode :: "pystr \<Rightarrow> exc + byte list" where
  "utf8_encode [] = Inr []"
| "utf8_encode (c # cs) =
     (case utf8_encode_char c of
        Inl e \<Rightarrow> Inl e
      | Inr bs \<Rightarrow> (case utf8_encode cs of Inl e \<Rightarrow> Inl e | Inr rest \<Rightarrow> Inr (bs @ rest)))"

text \<open>
  \<open>b.decode('utf-8')\<close> is strict: it rejects stray continuation bytes, truncated and
  overlong sequences, encoded surrogates and values above \<open>0x10FFFF\<close>.
  \<open>utf8_decode_char\<close> reads one code point at the front and says how many continuation
  bytes it used.
\<close>

definition continuation :: "byte \<Rightarrow> bool" where
  "continuation b = (0x80 \<le> unat b \<and> unat b \<le> 0xBF)"

definition utf8_decode_char :: "byte \<Rightarrow> byte list \<Rightarrow> exc + (nat \<times> nat)" where
  "utf8_decode_char b0 bs =
     (if unat b0 < 0x80 then Inr (unat b0, 0)
      else if 0xC2 \<le> unat b0 \<and> unat b0 \<le> 0xDF then
        (case bs of
           b1 # r \<Rightarrow>
             if continuation b1
             then Inr ((unat b0 - 0xC0) * 64 + (unat b1 - 0x80), 1)
             else Inl UnicodeDecodeError
         | _ \<Rightarrow> Inl UnicodeDecodeError)
      else if 0xE0 \<le> unat b0 \<and> unat b0 \<le> 0xEF then
        (case bs of
           b1 # b2 # r \<Rightarrow>
             if continuation b1 \<and> continuation b2
                \<and> (unat b0 = 0xE0 \<longrightarrow> 0xA0 \<le> unat b1)
                \<and> (unat b0 = 0xED \<longrightarrow> unat b1 \<le> 0x9F)
             then Inr ((unat b0 - 0xE0) * 4096 + (unat b1 - 0x80) * 64 + (unat b2 - 0x80), 2)
             else Inl UnicodeDecodeError
         | _ \<Rightarrow> Inl UnicodeDecodeError)
      else if 0xF0 \<le> unat b0 \<and> unat b0 \<le> 0xF4 then
        (case bs of
           b1 # b2 # b3 # r \<Rightarrow>
             if continuation b1 \<and> continuation b2 \<and> continuation b3
                \<and> (unat b0 = 0xF0 \<longrightarrow> 0x90 \<le> unat b1)
                \<and> (unat b0 = 0xF4 \<longrightarrow> unat b1 \<le> 0x8F)
             then Inr ((unat b0 - 0xF0) * 262144 + (unat b1 - 0x80) * 4096
                       + (unat b2 - 0x80) * 64 + (unat b3 - 0x80), 3)
             else Inl UnicodeDecodeError
         | _ \<Rightarrow> Inl UnicodeDecodeError)
      else Inl UnicodeDecodeError)"

function utf8_decode :: "byte list \<Rightarrow> exc + pystr" where
  "utf8_decode [] = Inr []"
| "utf8_decode (b0 # bs) =
     (case utf8_decode_char b0 bs of
        Inl e \<Rightarrow> Inl e
      | Inr (c, k) \<Rightarrow>
          (case utf8_decode (drop k bs) of Inl e \<Rightarrow> Inl e | Inr cs \<Rightarrow> Inr (c # cs)))"
  by pat_completeness auto
termination
  by (relation "measure length") auto

text \<open>
  The base64 alphabet: \<open>b64_char\<close> is the table from a 6-bit value to its character,
  \<open>b64_value\<close> the table back (\<open>None\<close> for a byte outside the alphabet).
\<close>

definition b64_char :: "nat \<Rightarrow> byte" where
  "b64_char n = of_nat
     (if n < 26 then 65 + n else if n < 52 then 71 + n else if n < 62 then n - 4
      else if n = 62 then 43 else 47)"

definition b64_value :: "byte \<Rightarrow> nat option" where
  "b64_value ch = (let n = unat ch in
     if 65 \<le> n \<and> n \<le> 90 then Some (n - 65)
     else if 97 \<le> n \<and> n \<le> 122 then Some (n - 71)
     else if 48 \<le> n \<and> n \<le> 57 then Some (n + 4)
     else if n = 43 then Some 62
     else if n = 47 then Some 63
     else None)"

definition BASE64_PAD :: byte where
  "BASE64_PAD = 61"

text \<open>
  \<open>base64.b64encode\<close>: three bytes become four characters; one or two bytes left over
  are padded with \<open>=\<close>.
\<close>

fun b2a_base64 :: "byte list \<Rightarrow> byte list" where
  "b2a_base64 (a # b # c # rest) =
     [b64_char (unat a div 4),
      b64_char (unat a mod 4 * 16 + unat b div 16),
      b64_char (unat b mod 16 * 4 + unat c div 64),
      b64_char (unat c mod 64)] @ b2a_base64 rest"
| "b2a_base64 [a, b] =
     [b64_char (unat a div 4),
      b64_char (unat a mod 4 * 16 + unat b div 16),
      b64_char (unat b mod 16 * 4),
      BASE64_PAD]"
| "b2a_base64 [a] =
     [b64_char (unat a div 4),
      b64_char (unat a mod 4 * 16),
      BASE64_PAD, BASE64_PAD]"
| "b2a_base64 [] = []"

text \<open>
  \<open>base64.b64decode\<close> without validation: bytes outside the alphabet are skipped, the
  padding that completes a group of four ends the input, and leftover characters of an
  incomplete group raise \<open>binascii.Error\<close>.  \<open>quad_pos\<close> is the position in the group of
  four, \<open>leftchar\<close> the bits not yet written, \<open>pads\<close> the padding seen since the last
  character.  Shifts and bitwise or of the decoder are written as multiplication and
  addition (the operands never overlap).
\<close>

fun a2b_loop :: "byte list \<Rightarrow> nat \<Rightarrow> nat \<Rightarrow> nat \<Rightarrow> byte list \<Rightarrow> exc + byte list" where
  "a2b_loop [] quad_pos leftchar pads out =
     (if quad_pos \<noteq> 0 then Inl BinasciiError else Inr out)"
| "a2b_loop (this_ch # rest) quad_pos leftchar pads out =
     (if this_ch = BASE64_PAD then
        (if quad_pos \<ge> 2 \<and> quad_pos + (pads + 1) \<ge> 4 then Inr out
         else a2b_loop rest quad_pos leftchar (if quad_pos \<ge> 2 then pads + 1 else pads) out)
      else case b64_value this_ch of
        None \<Rightarrow> a2b_loop rest quad_pos leftchar pads out
      | Some v \<Rightarrow>
          (if quad_pos = 0 then a2b_loop rest 1 v 0 out
           else if quad_pos = 1 then
             a2b_loop rest 2 (v mod 16) 0 (out @ [of_nat (leftchar * 4 + v div 16)])
           else if quad_pos = 2 then
             a2b_loop rest 3 (v mod 4) 0 (out @ [of_nat (leftchar * 16 + v div 4)])
           else a2b_loop rest 0 0 0 (out @ [of_nat (leftchar * 64 + v)])))"

definition a2b_base64 :: "byte list \<Rightarrow> exc + byte list" where
  "a2b_base64 data = a2b_loop data 0 0 0 []"

text \<open>
  \<open>base64.b64decode\<close> accepts bytes, or a \<open>str\<close> of ASCII characters only (otherwise
  \<open>ValueError\<close>); anything else is a \<open>TypeError\<close>.  \<open>base64_to_string\<close> is called with
  bytes (the result of \<open>string_to_base64\<close>) and with a JSON value (the \<open>content\<close> field).
\<close>

datatype b64_arg = ArgBytes "byte list" | ArgJson json

definition b64decode :: "b64_arg \<Rightarrow> exc + byte list" where
  "b64decode b =
     (case b of
        ArgBytes data \<Rightarrow> a2b_base64 data
      | ArgJson (JStr s) \<Rightarrow>
          if \<forall>c \<in> set s. c < 128 then a2b_base64 (map of_nat s) else Inl ValueError
      | ArgJson _ \<Rightarrow> Inl TypeError)"

text \<open>prreviewer.py, lines 31 to 36.\<close>

definition string_to_base64 :: "pystr \<Rightarrow> exc + byte list" where
  "string_to_base64 s =
     (case utf8_encode s of Inl e \<Rightarrow> Inl e | Inr data \<Rightarrow> Inr (b2a_base64 data))"

definition base64_to_string :: "b64_arg \<Rightarrow> exc + pystr" where
  "base64_to_string b =
     (case b64decode b of Inl e \<Rightarrow> Inl e | Inr data \<Rightarrow> utf8_decode data)"



section \<open>The outside world: HTTP, standard output, the module-level flag\<close>

text \<open>
  A request is the URL and the headers given to \<open>requests.get\<close>; the URL of a file
  comes out of a JSON response and may be any JSON value.  A response is its status code
  and its body as \<open>response.json()\<close> reads it (\<open>None\<close> when the body is not JSON).
\<close>

record request =
  url :: json
  headers :: "(pystr \<times> pystr) list"

datatype response = Response (status_code: int) (body: "json option")

text \<open>
  The platform is what the program cannot see into: \<open>respond\<close> is \<open>requests.get\<close>
  together with the remote API (it may answer by the requests made so far, and \<open>None\<close>
  means that \<open>requests.get\<close> raised), \<open>container_repr\<close> is Python's \<open>str()\<close> of a list or
  a \<open>dict\<close>, which the program never relies on.
\<close>

record platform =
  respond :: "request list \<Rightarrow> request \<Rightarrow> response option"
  container_repr :: "json \<Rightarrow> pystr"

text \<open>Which function of the program issued a request.\<close>

datatype origin = PrData | FileList | FileContent

record exchange =
  issued_by :: origin
  sent :: request
  received :: "response option"

text \<open>
  The state a run changes: the arguments of the \<open>print\<close> calls so far (each is followed
  by a newline on the terminal), the HTTP exchanges so far, and the global \<open>DEBUG\<close>.
\<close>

record world =
  stdout :: "pystr list"
  trace :: "exchange list"
  DEBUG :: bool

definition initial_world :: world where
  "initial_world = \<lparr>stdout = [], trace = [], DEBUG = False\<rparr>"

definition printed_text :: "world \<Rightarrow> pystr" where
  "printed_text w = concat (map (\<lambda>s. s @ [10]) (stdout w))"

definition print :: "pystr \<Rightarrow> world \<Rightarrow> world" where
  "print s w = w\<lparr>stdout := stdout w @ [s]\<rparr>"

text \<open>The \<open>headers\<close> dictionary that every function builds, and the request with it.\<close>

definition api_headers :: "pystr \<Rightarrow> (pystr \<times> pystr) list" where
  "api_headers gh_token =
     [(lit ''Authorization'', lit ''token '' @ gh_token),
      (lit ''Accept'', lit ''application/vnd.github+json'')]"

definition api_request :: "json \<Rightarrow> pystr \<Rightarrow> request" where
  "api_request u gh_token = \<lparr>url = u, headers = api_headers gh_token\<rparr>"

definition requests_get ::
  "platform \<Rightarrow> origin \<Rightarrow> json \<Rightarrow> pystr \<Rightarrow> world \<Rightarrow> response option \<times> world" where
  "requests_get p who u gh_token w =
     (let rq = api_request u gh_token;
          r = respond p (map sent (trace w)) rq
      in (r, w\<lparr>trace := trace w @ [\<lparr>issued_by = who, sent = rq, received = r\<rparr>]\<rparr>))"

definition response_json :: "response \<Rightarrow> exc + json" where
  "response_json r = (case body r of None \<Rightarrow> Inl JSONDecodeError | Some j \<Rightarrow> Inr j)"

section \<open>The functions of prreviewer.py\<close>

text \<open>\<open>get_file_content\<close>, lines 39 to 52.\<close>

definition get_file_content :: "platform \<Rightarrow> json \<Rightarrow> pystr \<Rightarrow> world \<Rightarrow> (exc + pystr) \<times> world" where
  "get_file_content p u gh_token w =
     (case requests_get p FileContent u gh_token w of
        (None, w') \<Rightarrow> (Inl RequestException, w')
      | (Some r, w') \<Rightarrow>
          if status_code r \<noteq> 200
          then (Inl (Exception (lit ''Error fetching file contents: '' @ str_int (status_code r))), w')
          else (case response_json r of
                  Inl e \<Rightarrow> (Inl e, w')
                | Inr j \<Rightarrow>
                    (case py_getitem j (lit ''content'') of
                       Inl e \<Rightarrow> (Inl e, w')
                     | Inr c \<Rightarrow> (base64_to_string (ArgJson c), w'))))"

text \<open>
  The loop of \<open>get_pr_file_list\<close>, lines 69 to 76: the three components of the tuple are
  evaluated from left to right, and the first exception ends the loop.
\<close>

type_synonym changed_file = "json \<times> json \<times> pystr"

fun file_loop ::
  "platform \<Rightarrow> pystr \<Rightarrow> json list \<Rightarrow> changed_file list \<Rightarrow> world
     \<Rightarrow> (exc + changed_file list) \<times> world" where
  "file_loop p gh_token [] file_list w = (Inr file_list, w)"
| "file_loop p gh_token (file # rest) file_list w =
     (case py_getitem file (lit ''filename'') of
        Inl e \<Rightarrow> (Inl e, w)
      | Inr filename \<Rightarrow>
          (case py_getitem file (lit ''patch'') of
             Inl e \<Rightarrow> (Inl e, w)
           | Inr patch \<Rightarrow>
               (case py_getitem file (lit ''contents_url'') of
                  Inl e \<Rightarrow> (Inl e, w)
                | Inr contents_url \<Rightarrow>
                    (case get_file_content p contents_url gh_token w of
                       (Inl e, w') \<Rightarrow> (Inl e, w')
                     | (Inr content, w') \<Rightarrow>
                         file_loop p gh_token rest
                           (file_list @ [(filename, patch, content)]) w'))))"

text \<open>\<open>get_pr_file_list\<close>, lines 55 to 78.\<close>

definition files_url :: "pystr \<Rightarrow> pystr \<Rightarrow> pystr \<Rightarrow> pystr" where
  "files_url pr_number repo_ownr repo_name =
     lit ''https://api.github.com/repos/'' @ repo_ownr @ lit ''/'' @ repo_name
       @ lit ''/pulls/'' @ pr_number @ lit ''/files''"

definition get_pr_file_list ::
  "platform \<Rightarrow> pystr \<Rightarrow> pystr \<Rightarrow> pystr \<Rightarrow> pystr \<Rightarrow> world
     \<Rightarrow> (exc + changed_file list) \<times> world" where
  "get_pr_file_list p pr_number repo_ownr repo_name gh_token w =
     (case requests_get p FileList (JStr (files_url pr_number repo_ownr repo_name)) gh_token w of
        (None, w') \<Rightarrow> (Inl RequestException, w')
      | (Some r, w') \<Rightarrow>
          if status_code r \<noteq> 200
          then (Inl (Exception (lit ''Error fetching pull request: '' @ str_int (status_code r))), w')
          else (case response_json r of
                  Inl e \<Rightarrow> (Inl e, w')
                | Inr j \<Rightarrow>
                    (case py_iter j of
                       Inl e \<Rightarrow> (Inl e, w')
                     | Inr files \<Rightarrow> file_loop p gh_token files [] w')))"

text \<open>\<open>get_pr_data\<close>, lines 81 to 92; it returns the response itself.\<close>

definition pr_url :: "pystr \<Rightarrow> pystr \<Rightarrow> pystr \<Rightarrow> pystr" where
  "pr_url pr_number repo_ownr repo_name =
     lit ''https://api.github.com/repos/'' @ repo_ownr @ lit ''/'' @ repo_name
       @ lit ''/pulls/'' @ pr_number"

definition get_pr_data ::
  "platform \<Rightarrow> pystr \<Rightarrow> pystr \<Rightarrow> pystr \<Rightarrow> pystr \<Rightarrow> world \<Rightarrow> (exc + response) \<times> world" where
  "get_pr_data p pr_number repo_ownr repo_name gh_token w =
     (case requests_get p PrData (JStr (pr_url pr_number repo_ownr repo_name)) gh_token w of
        (None, w') \<Rightarrow> (Inl RequestException, w')
      | (Some r, w') \<Rightarrow>
          if status_code r \<noteq> 200
          then (Inl (Exception (lit ''Error fetching pull request: '' @ str_int (status_code r))), w')
          else (Inr r, w'))"

text \<open>\<open>printout\<close>, lines 95 to 100.\<close>

definition printout :: "pystr \<Rightarrow> bool \<Rightarrow> world \<Rightarrow> world" where
  "printout fstring mode w =
     (let output = (mode \<or> DEBUG w)
      in if output then print fstring w else w)"

text \<open>\<open>print_script_signature\<close>, lines 103 to 115.\<close>

definition print_script_signature :: "pystr \<Rightarrow> pystr \<Rightarrow> pystr \<Rightarrow> bool \<Rightarrow> world \<Rightarrow> world" where
  "print_script_signature pr_number repo_ownr repo_name verbose w =
     (let signature = [10] @ lit ''Running reviews on PR #'' @ pr_number @ lit '' in ''
                        @ repo_ownr @ lit ''/'' @ repo_name @ lit ''...'' @ [10];
          len_signature = int (length signature) - 2;
          signature = signature @ replicate (nat len_signature) 61;
          signature = signature @ [10]
      in printout signature verbose w)"

section \<open>\<open>main\<close>\<close>

text \<open>The parameters of \<open>main\<close> (lines 118 to 143), as typer hands them over.\<close>

record config =
  pr_number :: int
  repo_ownr :: pystr
  repo_name :: pystr
  gh_token :: pystr
  review_title :: bool
  review_body :: bool
  review_diffs :: bool
  debug :: bool
  verbose :: bool
  max_files :: int
  max_tokens :: int
  max_input_tokens :: int
  max_input_tokens_pf :: int

text \<open>
  How a run of \<open>main\<close> ends: it returns, or an exception leaves it.  The interpreter
  turns that into the exit status of the process: 0 after a return, the argument of
  \<open>exit\<close> for \<open>SystemExit\<close>, and 1 (with a traceback) for any other uncaught exception.
\<close>

datatype outcome = Returned | Raised exc

fun exit_status :: "outcome \<Rightarrow> int" where
  "exit_status Returned = 0"
| "exit_status (Raised (SystemExit n)) = n"
| "exit_status (Raised _) = 1"

text \<open>
  An f-string field \<open>{v}\<close> for a value taken out of a JSON response: a string stands for
  itself, \<open>None\<close>, booleans and integers are written as Python writes them.
\<close>

definition format_json :: "platform \<Rightarrow> json \<Rightarrow> pystr" where
  "format_json p v =
     (case v of
        JStr s \<Rightarrow> s
      | JNull \<Rightarrow> lit ''None''
      | JBool b \<Rightarrow> str_bool b
      | JNum n \<Rightarrow> str_int n
      | _ \<Rightarrow> container_repr p v)"

text \<open>The block under \<open>if debug\<close>, lines 150 to 161.\<close>

definition program_call :: "config \<Rightarrow> world \<Rightarrow> world" where
  "program_call cfg w =
     (let w = print (lit ''PROGRAM CALL'') w;
          w = print ([9] @ lit ''pr_number: '' @ str_int (pr_number cfg)) w;
          w = print ([9] @ lit ''repo_ownr: '' @ repo_ownr cfg) w;
          w = print ([9] @ lit ''repo_name: '' @ repo_name cfg) w;
          w = print ([9] @ lit ''gh_token:  '' @ gh_token cfg) w;
          w = print ([9] @ lit ''review_title: '' @ str_bool (review_title cfg)) w;
          w = print ([9] @ lit ''review_body: '' @ str_bool (review_body cfg)) w;
          w = print ([9] @ lit ''review_diffs: '' @ str_bool (review_diffs cfg)) w;
          w = print ([9] @ lit ''verbose: '' @ str_bool (verbose cfg)) w;
          w = print ([9] @ lit ''debug: '' @ str_bool (debug cfg)) w
      in print [10] w)"

text \<open>
  The block under \<open>if review_title or review_body\<close>, lines 174 to 187: both fields are
  read before anything is printed.
\<close>

definition review_title_body :: "platform \<Rightarrow> config \<Rightarrow> world \<Rightarrow> (exc + unit) \<times> world" where
  "review_title_body p cfg w =
     (case get_pr_data p (str_int (pr_number cfg)) (repo_ownr cfg) (repo_name cfg) (gh_token cfg) w of
        (Inl e, w) \<Rightarrow> (Inl e, w)
      | (Inr r, w) \<Rightarrow>
          (case response_json r of
             Inl e \<Rightarrow> (Inl e, w)
           | Inr pr_data \<Rightarrow>
               (case py_getitem pr_data (lit ''title'') of
                  Inl e \<Rightarrow> (Inl e, w)
                | Inr pr_title \<Rightarrow>
                    (case py_getitem pr_data (lit ''body'') of
                       Inl e \<Rightarrow> (Inl e, w)
                     | Inr pr_body \<Rightarrow>
                         (let w = (if review_title cfg \<noteq> False
                                   then printout ([9] @ format_json p pr_title) (verbose cfg)
                                          (printout (lit ''Reviewing the title:'') (verbose cfg) w)
                                   else w);
                              w = (if review_body cfg \<noteq> False
                                   then printout ([9] @ format_json p pr_body) (verbose cfg)
                                          (printout (lit ''Reviewing the body:'') (verbose cfg) w)
                                   else w)
                          in (Inr (), w))))))"

text \<open>
  The block under \<open>if review_diffs\<close>, lines 190 to 197; the loop over the changed files
  does nothing.
\<close>

definition review_files :: "platform \<Rightarrow> config \<Rightarrow> world \<Rightarrow> (exc + unit) \<times> world" where
  "review_files p cfg w =
     (let w = printout (lit ''Reviewing the files:'') (verbose cfg) w
      in case get_pr_file_list p (str_int (pr_number cfg)) (repo_ownr cfg) (repo_name cfg)
                (gh_token cfg) w of
           (Inl e, w) \<Rightarrow> (Inl e, w)
         | (Inr changed_files, w) \<Rightarrow> (Inr (), w))"

definition error_message :: pystr where
  "error_message = lit ''!!!ERROR: `max_input_tokens > max_tokens`'' @ [10]"

definition warn_message :: pystr where
  "warn_message = lit ''!!!WARN: `max_input_tokens = max_tokens` (not recommended)'' @ [10]"

text \<open>\<open>main\<close>, lines 145 to 197, run from the state in which the module was loaded.\<close>

definition main :: "platform \<Rightarrow> config \<Rightarrow> outcome \<times> world" where
  "main p cfg =
     (let w = initial_world\<lparr>DEBUG := debug cfg\<rparr>;
          w = print_script_signature (str_int (pr_number cfg)) (repo_ownr cfg) (repo_name cfg)
                (verbose cfg) w;
          w = (if debug cfg then program_call cfg w else w)
      in if max_input_tokens cfg > max_tokens cfg
         then (Raised (SystemExit 1), print error_message w)
         else
           (let w = (if max_input_tokens cfg = max_tokens cfg then print warn_message w else w)
            in case (if review_title cfg \<or> review_body cfg
                     then review_title_body p cfg w else (Inr (), w)) of
                 (Inl e, w) \<Rightarrow> (Raised e, w)
               | (Inr _, w) \<Rightarrow>
                   (if review_diffs cfg \<noteq> False
                    then (case review_files p cfg w of
                            (Inl e, w) \<Rightarrow> (Raised e, w)
                          | (Inr _, w) \<Rightarrow> (Returned, w))
                    else (Returned, w))))"

text \<open>The requests of a run that \<open>get_pr_data\<close> issued.\<close>

definition metadata_requests :: "world \<Rightarrow> exchange list" where
  "metadata_requests w = filter (\<lambda>x. issued_by x = PrData) (trace w)"

section \<open>Notions used to state the properties\<close>

text \<open>
  The state of \<open>main\<close> after the banner and the debug block (lines 145 to 161), and after
  the check of the token limits when it lets the run go on (lines 163 to 168).
\<close>

definition after_banner :: "config \<Rightarrow> world" where
  "after_banner cfg =
     (let w = initial_world\<lparr>DEBUG := debug cfg\<rparr>;
          w = print_script_signature (str_int (pr_number cfg)) (repo_ownr cfg) (repo_name cfg)
                (verbose cfg) w
      in if debug cfg then program_call cfg w else w)"

definition after_limits :: "config \<Rightarrow> world" where
  "after_limits cfg =
     (if max_input_tokens cfg = max_tokens cfg then print warn_message (after_banner cfg)
      else after_banner cfg)"

text \<open>
  The status code an exchange received, if it received a response; the message of the
  \<open>Exception\<close> that the issuing function raises for a status code other than 200; the
  exception of a result, if it is one.
\<close>

definition status_of :: "exchange \<Rightarrow> int option" where
  "status_of x = map_option status_code (received x)"

definition failure_message :: "origin \<Rightarrow> int \<Rightarrow> pystr" where
  "failure_message who code =
     (case who of
        FileContent \<Rightarrow> lit ''Error fetching file contents: ''
      | _ \<Rightarrow> lit ''Error fetching pull request: '') @ str_int code"

definition failure :: "exc + 'a \<Rightarrow> exc option" where
  "failure res = (case res of Inl e \<Rightarrow> Some e | Inr v \<Rightarrow> None)"

text \<open>
  A list of exchanges aborts on the first failure, ending with the error \<open>err\<close> (or with
  none): every exchange but the last was answered 200; a last exchange answered by
  another status code gives the \<open>Exception\<close> with that code; and without an error
  every exchange was answered 200.
\<close>

definition aborts_first :: "exchange list \<Rightarrow> exc option \<Rightarrow> bool" where
  "aborts_first new err =
     ((\<forall>x \<in> set (butlast new). status_of x = Some 200)
      \<and> (\<forall>c. new \<noteq> [] \<and> status_of (last new) = Some c \<and> c \<noteq> 200
            \<longrightarrow> err = Some (Exception (failure_message (issued_by (last new)) c)))
      \<and> (err = None \<longrightarrow> (\<forall>x \<in> set new. status_of x = Some 200)))"

text \<open>
  The exchange that \<open>get_pr_file_list\<close> and \<open>get_pr_data\<close> make first, in the state
  \<open>w\<close>.
\<close>

definition files_exchange :: "platform \<Rightarrow> pystr \<Rightarrow> pystr \<Rightarrow> pystr \<Rightarrow> pystr \<Rightarrow> world \<Rightarrow> exchange" where
  "files_exchange p n ownr name t w =
     \<lparr>issued_by = FileList, sent = api_request (JStr (files_url n ownr name)) t,
      received = respond p (map sent (trace w)) (api_request (JStr (files_url n ownr name)) t)\<rparr>"

definition pr_exchange :: "platform \<Rightarrow> pystr \<Rightarrow> pystr \<Rightarrow> pystr \<Rightarrow> pystr \<Rightarrow> world \<Rightarrow> exchange" where
  "pr_exchange p n ownr name t w =
     \<lparr>issued_by = PrData, sent = api_request (JStr (pr_url n ownr name)) t,
      received = respond p (map sent (trace w)) (api_request (JStr (pr_url n ownr name)) t)\<rparr>"

text \<open>
  The lines that the block for title and body prints when the metadata arrive; the
  exception of an outcome; the exchange that \<open>main\<close> makes for the metadata.
\<close>

definition title_body_lines :: "platform \<Rightarrow> config \<Rightarrow> bool \<Rightarrow> json \<Rightarrow> json \<Rightarrow> pystr list" where
  "title_body_lines p cfg dbg pr_title pr_body =
     (if review_title cfg \<and> (verbose cfg \<or> dbg)
      then [lit ''Reviewing the title:'', [9] @ format_json p pr_title] else [])
     @ (if review_body cfg \<and> (verbose cfg \<or> dbg)
        then [lit ''Reviewing the body:'', [9] @ format_json p pr_body] else [])"

definition outcome_error :: "outcome \<Rightarrow> exc option" where
  "outcome_error out = (case out of Returned \<Rightarrow> None | Raised e \<Rightarrow> Some e)"

definition main_pr_exchange :: "platform \<Rightarrow> config \<Rightarrow> exchange" where
  "main_pr_exchange p cfg =
     pr_exchange p (str_int (pr_number cfg)) (repo_ownr cfg) (repo_name cfg) (gh_token cfg)
       (after_limits cfg)"

text \<open>Whether an exception is the \<open>SystemExit\<close> that \<open>exit\<close> raises.\<close>

definition is_exit :: "exc \<Rightarrow> bool" where
  "is_exit e = (case e of SystemExit n \<Rightarrow> True | _ \<Rightarrow> False)"

text \<open>
  An entry of the file list answers with a tuple on a platform: the entry has the file
  name and the patch of the tuple and a \<open>contents_url\<close> whose endpoint answers 200, at any
  moment, with a JSON object whose \<open>content\<close> field base64-decodes to the content of the
  tuple.
\<close>

definition answers :: "platform \<Rightarrow> pystr \<Rightarrow> json \<Rightarrow> changed_file \<Rightarrow> bool" where
  "answers p t entry tuple =
     (case tuple of (filename, patch, content) \<Rightarrow>
        py_getitem entry (lit ''filename'') = Inr filename
        \<and> py_getitem entry (lit ''patch'') = Inr patch
        \<and> (\<exists>u. py_getitem entry (lit ''contents_url'') = Inr u
             \<and> (\<forall>h. \<exists>j c. respond p h (api_request u t) = Some (Response 200 (Some j))
                    \<and> py_getitem j (lit ''content'') = Inr c
                    \<and> base64_to_string (ArgJson c) = Inr content)))"

text \<open>The line of the debug block that shows \<open>verbose\<close>; it is the tenth thing printed.\<close>

definition verbose_line :: "bool \<Rightarrow> pystr" where
  "verbose_line v = [9] @ lit ''verbose: '' @ str_bool v"

section \<open>Test data: the defaults of the command line and mocked endpoints\<close>

text \<open>
  The options at their defaults (lines 124 to 142), for pull request 1 of
  \<open>octo/demo\<close> with the token \<open>t\<close>.
\<close>

definition default_config :: config where
  "default_config =
     \<lparr>pr_number = 1, repo_ownr = lit ''octo'', repo_name = lit ''demo'', gh_token = lit ''t'',
      review_title = True, review_body = True, review_diffs = True,
      debug = False, verbose = False,
      max_files = 30, max_tokens = 4096, max_input_tokens = 4096, max_input_tokens_pf = 4096\<rparr>"

text \<open>A platform whose every endpoint answers 404.\<close>

definition mock_404 :: platform where
  "mock_404 = \<lparr>respond = (\<lambda>history rq. Some (Response 404 None)), container_repr = (\<lambda>v. [])\<rparr>"

text \<open>
  A platform whose file-list endpoint for pull request 1 of \<open>octo/demo\<close> lists two
  files and whose every other endpoint answers 404, and the exchange in which the
  content of the first file is asked for.
\<close>

definition mock_files_404 :: platform where
  "mock_files_404 =
     \<lparr>respond = (\<lambda>history rq.
        if url rq = JStr (files_url (lit ''1'') (lit ''octo'') (lit ''demo''))
        then Some (Response 200 (Some (JArr
               [JObj [(lit ''filename'', JStr (lit ''a.py'')), (lit ''patch'', JStr (lit ''@@ ...'')),
                      (lit ''contents_url'', JStr (lit ''https://api.github.com/a''))],
                JObj [(lit ''filename'', JStr (lit ''b.py'')), (lit ''patch'', JStr (lit ''@@ ...'')),
                      (lit ''contents_url'', JStr (lit ''https://api.github.com/b''))]])))
        else Some (Response 404 None)),
      container_repr = (\<lambda>v. [])\<rparr>"

definition failed_content_exchange :: exchange where
  "failed_content_exchange =
     \<lparr>issued_by = FileContent,
      sent = api_request (JStr (lit ''https://api.github.com/a'')) (lit ''t''),
      received = Some (Response 404 None)\<rparr>"

text \<open>
  A platform whose file-list endpoint for pull request 1 of \<open>octo/demo\<close> lists the one file
  \<open>a.py\<close> and whose every other endpoint answers with the base64 of \<open>print(1)\<close>; a
  platform whose every endpoint answers with the metadata of a pull request; and the
  default options with \<open>--verbose\<close> and \<open>--no-review-diffs\<close>.
\<close>

definition mock_one_file :: platform where
  "mock_one_file =
     \<lparr>respond = (\<lambda>history rq.
        if url rq = JStr (files_url (lit ''1'') (lit ''octo'') (lit ''demo''))
        then Some (Response 200 (Some (JArr
               [JObj [(lit ''filename'', JStr (lit ''a.py'')), (lit ''patch'', JStr (lit ''@@ ...'')),
                      (lit ''contents_url'', JStr (lit ''https://api.github.com/a''))]])))
        else Some (Response 200 (Some (JObj [(lit ''content'', JStr (lit ''cHJpbnQoMSk=''))])))),
      container_repr = (\<lambda>v. [])\<rparr>"

definition mock_metadata :: platform where
  "mock_metadata =
     \<lparr>respond = (\<lambda>history rq. Some (Response 200 (Some (JObj
        [(lit ''title'', JStr (lit ''Fix bug'')), (lit ''body'', JStr (lit ''Closes #1''))])))),
      container_repr = (\<lambda>v. [])\<rparr>"


text \<open>The default options with \<open>--debug\<close> and \<open>--no-review-diffs\<close>; \<open>verbose\<close> is off.\<close>

definition debug_config :: config where
  "debug_config = default_config\<lparr>debug := True, review_diffs := False\<rparr>"

section \<open>Base64: decoding undoes encoding\<close>





























section \<open>UTF-8: decoding undoes encoding\<close>

































section \<open>The round trip of \<open>string_to_base64\<close> and \<open>base64_to_string\<close>\<close>




section \<open>The stages of a run\<close>

subsection \<open>Printing\<close>

lemma print_sel [simp]:
  "stdout (print s w) = stdout w @ [s]" "trace (print s w) = trace w" "DEBUG (print s w) = DEBUG w"
  by (simp_all add: print_def)

lemma printout_eq: "printout s mode w = (if mode \<or> DEBUG w then print s w else w)"
  by (simp add: printout_def)

lemma printout_sel [simp]:
  "stdout (printout s mode w) = stdout w @ (if mode \<or> DEBUG w then [s] else [])"
  "trace (printout s mode w) = trace w" "DEBUG (printout s mode w) = DEBUG w"
  by (simp_all add: printout_eq)

lemma print_script_signature_sel [simp]:
  "trace (print_script_signature n ownr name v w) = trace w"
  "DEBUG (print_script_signature n ownr name v w) = DEBUG w"
  by (simp_all add: print_script_signature_def Let_def)

lemma program_call_sel [simp]:
  "trace (program_call cfg w) = trace w" "DEBUG (program_call cfg w) = DEBUG w"
  by (simp_all add: program_call_def Let_def)

lemma after_banner_sel [simp]:
  "trace (after_banner cfg) = []" "DEBUG (after_banner cfg) = debug cfg"
  by (simp_all add: after_banner_def Let_def initial_world_def)

lemma after_limits_sel [simp]:
  "trace (after_limits cfg) = []" "DEBUG (after_limits cfg) = debug cfg"
  by (simp_all add: after_limits_def)

lemma main_exit:
  "max_input_tokens cfg > max_tokens cfg \<Longrightarrow>
   main p cfg = (Raised (SystemExit 1), print error_message (after_banner cfg))"
  by (simp add: main_def after_banner_def Let_def)

lemma main_run:
  "\<not> max_input_tokens cfg > max_tokens cfg \<Longrightarrow>
   main p cfg =
     (case (if review_title cfg \<or> review_body cfg
            then review_title_body p cfg (after_limits cfg) else (Inr (), after_limits cfg)) of
        (Inl e, w) \<Rightarrow> (Raised e, w)
      | (Inr u, w) \<Rightarrow>
          (if review_diffs cfg \<noteq> False
           then (case review_files p cfg w of
                   (Inl e, w) \<Rightarrow> (Raised e, w)
                 | (Inr u, w) \<Rightarrow> (Returned, w))
           else (Returned, w)))"
  by (simp add: main_def after_banner_def after_limits_def Let_def)


subsection \<open>Abort on the first failure\<close>

lemma failure_simps [simp]: "failure (Inl e) = Some e" "failure (Inr v) = None"
  by (simp_all add: failure_def)

lemma aborts_first_Nil [simp]: "aborts_first [] err"
  by (simp add: aborts_first_def)

lemma aborts_first_append:
  assumes "aborts_first new1 None" "aborts_first new2 err"
  shows "aborts_first (new1 @ new2) err"
proof (cases "new2 = []")
  case True
  with assms(1) show ?thesis
    by (auto simp: aborts_first_def dest: in_set_butlastD)
next
  case False
  with assms show ?thesis
    by (auto simp: aborts_first_def butlast_append)
qed

lemma aborts_first_last:
  assumes "aborts_first new err" "x \<in> set new" "status_of x = Some c" "c \<noteq> 200"
  shows "x = last new \<and> err = Some (Exception (failure_message (issued_by x) c))"
proof -
  from assms(2) have ne: "new \<noteq> []" by auto
  have "x \<notin> set (butlast new)" using assms by (auto simp: aborts_first_def)
  with assms(2) have "x = last new"
    using append_butlast_last_id [OF ne] by (metis Un_iff empty_iff empty_set set_ConsD set_append)
  with assms ne show ?thesis by (auto simp: aborts_first_def)
qed

subsection \<open>The fetching functions\<close>

lemma get_file_content_run:
  "\<exists>x. snd (get_file_content p u t w) = w\<lparr>trace := trace w @ [x]\<rparr>
     \<and> issued_by x = FileContent \<and> sent x = api_request u t
     \<and> received x = respond p (map sent (trace w)) (api_request u t)
     \<and> aborts_first [x] (failure (fst (get_file_content p u t w)))"
  by (auto simp: get_file_content_def requests_get_def Let_def aborts_first_def status_of_def
      failure_message_def split: option.splits sum.splits)

lemma file_loop_run:
  "\<exists>new. snd (file_loop p t files acc w) = w\<lparr>trace := trace w @ new\<rparr>
     \<and> (\<forall>x \<in> set new. issued_by x = FileContent)
     \<and> length new \<le> length files
     \<and> aborts_first new (failure (fst (file_loop p t files acc w)))"
proof (induction files arbitrary: acc w)
  case Nil
  show ?case by (auto intro: exI [of _ "[]"])
next
  case (Cons entry rest)
  show ?case
  proof (cases "py_getitem entry (lit ''filename'')")
    case (Inl e)
    then show ?thesis by (auto intro: exI [of _ "[]"])
  next
    case fn: (Inr filename)
    show ?thesis
    proof (cases "py_getitem entry (lit ''patch'')")
      case (Inl e)
      with fn show ?thesis by (auto intro: exI [of _ "[]"])
    next
      case pa: (Inr patch)
      show ?thesis
      proof (cases "py_getitem entry (lit ''contents_url'')")
        case (Inl e)
        with fn pa show ?thesis by (auto intro: exI [of _ "[]"])
      next
        case cu: (Inr u)
        obtain x where x: "snd (get_file_content p u t w) = w\<lparr>trace := trace w @ [x]\<rparr>"
          "issued_by x = FileContent" "aborts_first [x] (failure (fst (get_file_content p u t w)))"
          using get_file_content_run [of p u t w] by blast
        obtain r w' where g: "get_file_content p u t w = (r, w')" by (cases "get_file_content p u t w")
        with x have w': "w' = w\<lparr>trace := trace w @ [x]\<rparr>" and ab: "aborts_first [x] (failure r)" by simp_all
        show ?thesis
        proof (cases r)
          case (Inl e)
          then have "file_loop p t (entry # rest) acc w = (Inl e, w')" using fn pa cu g by simp
          moreover have "aborts_first [x] (Some e)" using ab Inl by simp
          ultimately show ?thesis using w' x(2) by (auto intro!: exI [of _ "[x]"])
        next
          case (Inr content)
          let ?acc = "acc @ [(filename, patch, content)]"
          have step: "file_loop p t (entry # rest) acc w = file_loop p t rest ?acc w'"
            using fn pa cu g Inr by simp
          obtain new where new: "snd (file_loop p t rest ?acc w') = w'\<lparr>trace := trace w' @ new\<rparr>"
            "\<forall>x \<in> set new. issued_by x = FileContent" "length new \<le> length rest"
            "aborts_first new (failure (fst (file_loop p t rest ?acc w')))"
            using Cons.IH [of ?acc w'] by blast
          have "aborts_first ([x] @ new) (failure (fst (file_loop p t rest ?acc w')))"
            using ab Inr new(4) by (intro aborts_first_append) simp_all
          then show ?thesis
            unfolding step using new w' x(2) by (auto intro!: exI [of _ "x # new"])
        qed
      qed
    qed
  qed
qed


lemma get_pr_file_list_run:
  "\<exists>new. snd (get_pr_file_list p n ownr name t w)
         = w\<lparr>trace := trace w @ files_exchange p n ownr name t w # new\<rparr>
     \<and> (\<forall>y \<in> set new. issued_by y = FileContent)
     \<and> aborts_first (files_exchange p n ownr name t w # new)
          (failure (fst (get_pr_file_list p n ownr name t w)))"
proof -
  let ?x = "files_exchange p n ownr name t w"
  let ?w = "w\<lparr>trace := trace w @ [?x]\<rparr>"
  have rq: "requests_get p FileList (JStr (files_url n ownr name)) t w = (received ?x, ?w)"
    by (simp add: requests_get_def Let_def files_exchange_def)
  show ?thesis
  proof (cases "\<exists>r b files. received ?x = Some r \<and> status_code r = 200 \<and> body r = Some b
                  \<and> py_iter b = Inr files")
    case False
    have "snd (get_pr_file_list p n ownr name t w) = ?w
        \<and> aborts_first [?x] (failure (fst (get_pr_file_list p n ownr name t w)))"
    proof (cases "received ?x")
      case None
      then show ?thesis
        unfolding get_pr_file_list_def rq by (simp add: aborts_first_def status_of_def)
    next
      case (Some r)
      show ?thesis
      proof (cases "status_code r = 200")
        case ne: False
        have resp: "respond p (map sent (trace w)) (api_request (JStr (files_url n ownr name)) t)
            = Some r"
          using Some by (simp add: files_exchange_def)
        from ne show ?thesis
          unfolding get_pr_file_list_def rq Some
          by (auto simp: aborts_first_def status_of_def resp failure_message_def files_exchange_def)
      next
        case ok: True
        show ?thesis
        proof (cases "body r")
          case None
          then show ?thesis
            unfolding get_pr_file_list_def rq Some using ok
            by (simp add: aborts_first_def status_of_def Some response_json_def)
        next
          case b: (Some b)
          with False Some ok obtain e where "py_iter b = Inl e" by (cases "py_iter b") auto
          then show ?thesis
            unfolding get_pr_file_list_def rq Some using ok b
            by (simp add: aborts_first_def status_of_def Some response_json_def)
        qed
      qed
    qed
    then show ?thesis by (auto intro!: exI [of _ "[]"])
  next
    case True
    then obtain r b files where b: "received ?x = Some r" "status_code r = 200" "body r = Some b"
      "py_iter b = Inr files"
      by blast
    have eq: "get_pr_file_list p n ownr name t w = file_loop p t files [] ?w"
      unfolding get_pr_file_list_def rq using b by (simp add: response_json_def)
    obtain new where new: "snd (file_loop p t files [] ?w) = ?w\<lparr>trace := trace ?w @ new\<rparr>"
      "\<forall>x \<in> set new. issued_by x = FileContent"
      "aborts_first new (failure (fst (file_loop p t files [] ?w)))"
      using file_loop_run [of p t files "[]" ?w] by blast
    have "aborts_first [?x] None" using b by (simp add: aborts_first_def status_of_def)
    then have "aborts_first ([?x] @ new) (failure (fst (file_loop p t files [] ?w)))"
      using new(3) by (rule aborts_first_append)
    then show ?thesis unfolding eq using new by (auto intro!: exI [of _ new])
  qed
qed

lemma failure_case [simp]:
  "failure (case res of Inl e \<Rightarrow> Inl e | Inr v \<Rightarrow> Inr (f v)) = failure res"
  by (cases res) simp_all

lemma review_files_run:
  "\<exists>new. snd (review_files p cfg w)
         = w\<lparr>stdout := stdout w @ (if verbose cfg \<or> DEBUG w then [lit ''Reviewing the files:''] else []),
             trace := trace w @ files_exchange p (str_int (pr_number cfg)) (repo_ownr cfg)
                        (repo_name cfg) (gh_token cfg) w # new\<rparr>
     \<and> (\<forall>y \<in> set new. issued_by y = FileContent)
     \<and> aborts_first (files_exchange p (str_int (pr_number cfg)) (repo_ownr cfg)
                        (repo_name cfg) (gh_token cfg) w # new)
          (failure (fst (review_files p cfg w)))"
proof -
  let ?w = "printout (lit ''Reviewing the files:'') (verbose cfg) w"
  let ?g = "get_pr_file_list p (str_int (pr_number cfg)) (repo_ownr cfg) (repo_name cfg) (gh_token cfg) ?w"
  let ?x = "files_exchange p (str_int (pr_number cfg)) (repo_ownr cfg) (repo_name cfg) (gh_token cfg)"
  have x: "?x ?w = ?x w" by (simp add: files_exchange_def)
  obtain new where new: "snd ?g = ?w\<lparr>trace := trace ?w @ ?x ?w # new\<rparr>"
     "\<forall>y \<in> set new. issued_by y = FileContent" "aborts_first (?x ?w # new) (failure (fst ?g))"
    using get_pr_file_list_run [of p _ _ _ _ ?w] by blast
  obtain r w' where g: "?g = (r, w')" by (cases ?g)
  have rf: "review_files p cfg w = (case r of Inl e \<Rightarrow> (Inl e, w') | Inr v \<Rightarrow> (Inr (), w'))"
    unfolding review_files_def Let_def g by (cases r) simp_all
  have f: "failure (fst (review_files p cfg w)) = failure r"
    unfolding rf by (cases r) simp_all
  have ab: "aborts_first (?x w # new) (failure (fst (review_files p cfg w)))"
    unfolding f using new(3) unfolding g x by simp
  have "snd (review_files p cfg w) = w'" unfolding rf by (cases r) simp_all
  also have "w' = ?w\<lparr>trace := trace ?w @ ?x w # new\<rparr>" using new(1) g x by simp
  also have "\<dots> = w\<lparr>stdout := stdout w @ (if verbose cfg \<or> DEBUG w then [lit ''Reviewing the files:''] else []),
             trace := trace w @ ?x w # new\<rparr>"
    by (simp add: printout_eq print_def)
  finally have "snd (review_files p cfg w) = w\<lparr>stdout := stdout w @ (if verbose cfg \<or> DEBUG w then [lit ''Reviewing the files:''] else []),
             trace := trace w @ ?x w # new\<rparr>" .
  with new(2) ab show ?thesis by (intro exI [of _ new] conjI)
qed

subsection \<open>The stages of \<open>main\<close>\<close>

lemma get_pr_data_eq:
  "get_pr_data p n ownr name t w =
     ((case received (pr_exchange p n ownr name t w) of
         None \<Rightarrow> Inl RequestException
       | Some r \<Rightarrow>
           if status_code r \<noteq> 200
           then Inl (Exception (lit ''Error fetching pull request: '' @ str_int (status_code r)))
           else Inr r),
      w\<lparr>trace := trace w @ [pr_exchange p n ownr name t w]\<rparr>)"
  by (simp add: get_pr_data_def requests_get_def Let_def pr_exchange_def split: option.splits)

lemma review_title_body_ok:
  assumes "received (pr_exchange p (str_int (pr_number cfg)) (repo_ownr cfg) (repo_name cfg)
              (gh_token cfg) w) = Some r"
    and "status_code r = 200" and "body r = Some j"
    and "py_getitem j (lit ''title'') = Inr pr_title"
    and "py_getitem j (lit ''body'') = Inr pr_body"
  shows "review_title_body p cfg w =
     (Inr (), w\<lparr>stdout := stdout w @ title_body_lines p cfg (DEBUG w) pr_title pr_body,
               trace := trace w @ [pr_exchange p (str_int (pr_number cfg)) (repo_ownr cfg)
                                     (repo_name cfg) (gh_token cfg) w]\<rparr>)"
  using assms
  by (simp add: review_title_body_def get_pr_data_eq response_json_def title_body_lines_def
      Let_def printout_eq print_def)

lemma review_title_body_run:
  "\<exists>lines. snd (review_title_body p cfg w)
       = w\<lparr>stdout := stdout w @ lines,
           trace := trace w @ [pr_exchange p (str_int (pr_number cfg)) (repo_ownr cfg)
                                 (repo_name cfg) (gh_token cfg) w]\<rparr>
     \<and> aborts_first [pr_exchange p (str_int (pr_number cfg)) (repo_ownr cfg)
                                 (repo_name cfg) (gh_token cfg) w]
          (failure (fst (review_title_body p cfg w)))"
proof -
  let ?x = "pr_exchange p (str_int (pr_number cfg)) (repo_ownr cfg) (repo_name cfg) (gh_token cfg) w"
  let ?w = "w\<lparr>trace := trace w @ [?x]\<rparr>"
  show ?thesis
  proof (cases "\<exists>r j t b. received ?x = Some r \<and> status_code r = 200 \<and> body r = Some j
                  \<and> py_getitem j (lit ''title'') = Inr t \<and> py_getitem j (lit ''body'') = Inr b")
    case True
    then obtain r j t b where ok: "received ?x = Some r" "status_code r = 200" "body r = Some j"
      "py_getitem j (lit ''title'') = Inr t" "py_getitem j (lit ''body'') = Inr b" by blast
    have "aborts_first [?x] None" using ok by (simp add: aborts_first_def status_of_def)
    then show ?thesis
      unfolding review_title_body_ok [OF ok]
      by (auto intro!: exI [of _ "title_body_lines p cfg (DEBUG w) t b"])
  next
    case False
    have "\<exists>e. review_title_body p cfg w = (Inl e, ?w) \<and> aborts_first [?x] (Some e)"
    proof (cases "received ?x")
      case None
      then show ?thesis
        by (simp add: review_title_body_def get_pr_data_eq aborts_first_def status_of_def)
    next
      case (Some r)
      show ?thesis
      proof (cases "status_code r = 200")
        case ne: False
        then show ?thesis using Some
          by (simp add: review_title_body_def get_pr_data_eq aborts_first_def status_of_def
              failure_message_def pr_exchange_def)
      next
        case ok: True
        show ?thesis
        proof (cases "body r")
          case None
          then show ?thesis using Some ok
            by (simp add: review_title_body_def get_pr_data_eq aborts_first_def status_of_def
                response_json_def)
        next
          case j: (Some j)
          show ?thesis
          proof (cases "py_getitem j (lit ''title'')")
            case (Inl e)
            then show ?thesis using Some ok j
              by (simp add: review_title_body_def get_pr_data_eq aborts_first_def status_of_def
                  response_json_def)
          next
            case t: (Inr t)
            with False Some ok j obtain e where "py_getitem j (lit ''body'') = Inl e"
              by (cases "py_getitem j (lit ''body'')") auto
            then show ?thesis using Some ok j t
              by (simp add: review_title_body_def get_pr_data_eq aborts_first_def status_of_def
                  response_json_def)
          qed
        qed
      qed
    qed
    then obtain e where "review_title_body p cfg w = (Inl e, ?w)" "aborts_first [?x] (Some e)"
      by blast
    then show ?thesis by (auto intro!: exI [of _ "[]"])
  qed
qed


lemma main_run_shape:
  assumes "\<not> max_input_tokens cfg > max_tokens cfg"
  shows "\<exists>lines files.
      snd (main p cfg) = (after_limits cfg)\<lparr>stdout := stdout (after_limits cfg) @ lines,
         trace := (if review_title cfg \<or> review_body cfg then [main_pr_exchange p cfg] else [])
                    @ files\<rparr>
    \<and> (\<forall>y \<in> set files. issued_by y \<noteq> PrData)
    \<and> (\<not> (review_title cfg \<or> review_body cfg) \<and> review_diffs cfg \<longrightarrow> files \<noteq> []
          \<and> hd files = files_exchange p (str_int (pr_number cfg)) (repo_ownr cfg)
                (repo_name cfg) (gh_token cfg) (after_limits cfg))
    \<and> aborts_first ((if review_title cfg \<or> review_body cfg then [main_pr_exchange p cfg] else [])
                       @ files) (outcome_error (fst (main p cfg)))"
proof -
  let ?w0 = "after_limits cfg"
  let ?tb = "review_title cfg \<or> review_body cfg"
  let ?meta = "if ?tb then [main_pr_exchange p cfg] else []"
  let ?s1 = "if ?tb then review_title_body p cfg ?w0 else (Inr (), ?w0)"
  obtain r1 w1 where s1: "?s1 = (r1, w1)" by (cases ?s1)
  have "\<exists>lines1. w1 = ?w0\<lparr>stdout := stdout ?w0 @ lines1, trace := ?meta\<rparr>
      \<and> aborts_first ?meta (failure r1)"
  proof (cases ?tb)
    case True
    then have "review_title_body p cfg ?w0 = (r1, w1)" using s1 by simp
    then show ?thesis
      using review_title_body_run [of p cfg ?w0] True by (simp add: main_pr_exchange_def)
  next
    case False
    then have "r1 = Inr ()" "w1 = ?w0" using s1 by simp_all
    then show ?thesis using False by (auto intro!: exI [of _ "[]"])
  qed
  then obtain lines1 where w1: "w1 = ?w0\<lparr>stdout := stdout ?w0 @ lines1, trace := ?meta\<rparr>"
    and ab1: "aborts_first ?meta (failure r1)" by blast
  have m: "main p cfg =
     (case r1 of Inl e \<Rightarrow> (Raised e, w1)
      | Inr u \<Rightarrow> (if review_diffs cfg \<noteq> False
           then (case review_files p cfg w1 of
                   (Inl e, w) \<Rightarrow> (Raised e, w)
                 | (Inr u, w) \<Rightarrow> (Returned, w))
           else (Returned, w1)))"
    unfolding main_run [OF assms] s1 by simp
  show ?thesis
  proof (cases r1)
    case (Inl e)
    then have "main p cfg = (Raised e, w1)" using m by simp
    then have "snd (main p cfg) = w1" "outcome_error (fst (main p cfg)) = failure r1"
      using Inl by (simp_all add: outcome_error_def)
    then show ?thesis
      apply (intro exI [of _ lines1] exI [of _ "[]"])
      using w1 ab1 Inl s1 by (cases ?tb) simp_all
  next
    case (Inr u)
    show ?thesis
    proof (cases "review_diffs cfg")
      case False
      then have "main p cfg = (Returned, w1)" using m Inr by simp
      then have "snd (main p cfg) = w1" "outcome_error (fst (main p cfg)) = failure r1"
        using Inr by (simp_all add: outcome_error_def)
      then show ?thesis
        apply (intro exI [of _ lines1] exI [of _ "[]"])
        using w1 ab1 False by simp
    next
      case True
      let ?fx = "files_exchange p (str_int (pr_number cfg)) (repo_ownr cfg) (repo_name cfg)
                   (gh_token cfg) w1"
      obtain r2 w2 where s2: "review_files p cfg w1 = (r2, w2)" by (cases "review_files p cfg w1")
      obtain new where new:
        "w2 = w1\<lparr>stdout := stdout w1 @ (if verbose cfg \<or> DEBUG w1 then [lit ''Reviewing the files:''] else []),
             trace := trace w1 @ ?fx # new\<rparr>"
        "\<forall>y \<in> set new. issued_by y = FileContent"
        "aborts_first (?fx # new) (failure r2)"
        using review_files_run [of p cfg w1] s2 by auto
      have fx: "?tb \<or> ?fx = files_exchange p (str_int (pr_number cfg)) (repo_ownr cfg)
                (repo_name cfg) (gh_token cfg) ?w0"
        using w1 by (auto simp: files_exchange_def)
      have out: "main p cfg = ((case r2 of Inl e \<Rightarrow> Raised e | Inr u \<Rightarrow> Returned), w2)"
        using m Inr True s2 by (cases r2) simp_all
      have err: "outcome_error (fst (main p cfg)) = failure r2"
        unfolding out by (cases r2) (simp_all add: outcome_error_def)
      have ab: "aborts_first (?meta @ ?fx # new) (outcome_error (fst (main p cfg)))"
        unfolding err using ab1 new(3) Inr by (intro aborts_first_append) simp_all
      have w2: "w2 = ?w0\<lparr>stdout := stdout ?w0 @ (lines1 @ (if verbose cfg \<or> DEBUG w1 then [lit ''Reviewing the files:''] else [])),
          trace := ?meta @ ?fx # new\<rparr>"
        unfolding new(1) w1 by simp
      have orig: "\<forall>y \<in> set (?fx # new). issued_by y \<noteq> PrData"
        using new(2) by (simp add: files_exchange_def)
      show ?thesis
        apply (rule exI [of _ "lines1 @ (if verbose cfg \<or> DEBUG w1 then [lit ''Reviewing the files:''] else [])"])
        apply (rule exI [of _ "?fx # new"])
        using ab orig fx w2 out by simp blast
    qed
  qed
qed


section \<open>The check of the token limits\<close>

lemma error_message_contains: "sublist (lit ''max_input_tokens > max_tokens'') error_message"
  by (simp add: error_message_def lit_def sublist_Cons_right)

lemma printed_text_print [simp]: "printed_text (print s w) = printed_text w @ s @ [10]"
  by (simp add: printed_text_def)

lemma sublist_mid: "sublist u s \<Longrightarrow> sublist u (a @ s @ b)"
  by (auto simp: sublist_def) (metis append.assoc)

text \<open>
  Claim C1: with \<open>max_input_tokens > max_tokens\<close>, \<open>main\<close> prints the error message,
  which contains \<open>max_input_tokens > max_tokens\<close>, as its last output and leaves by
  \<open>exit(1)\<close>, so that the exit status is 1; no HTTP request has been issued.
\<close>

theorem main_token_limit_exit:
  assumes "max_input_tokens cfg > max_tokens cfg"
  shows "fst (main p cfg) = Raised (SystemExit 1)
     \<and> exit_status (fst (main p cfg)) = 1
     \<and> trace (snd (main p cfg)) = []
     \<and> stdout (snd (main p cfg)) = stdout (after_banner cfg) @ [error_message]
     \<and> sublist (lit ''max_input_tokens > max_tokens'') (printed_text (snd (main p cfg)))"
  using assms error_message_contains
  by (simp add: main_exit sublist_mid)

theorem main_token_limit_exit_witness:
  "max_input_tokens (default_config\<lparr>max_input_tokens := 5000\<rparr>)
     > max_tokens (default_config\<lparr>max_input_tokens := 5000\<rparr>)
     \<and> fst (main mock_404 (default_config\<lparr>max_input_tokens := 5000\<rparr>)) = Raised (SystemExit 1)
     \<and> exit_status (fst (main mock_404 (default_config\<lparr>max_input_tokens := 5000\<rparr>))) = 1
     \<and> trace (snd (main mock_404 (default_config\<lparr>max_input_tokens := 5000\<rparr>))) = []
     \<and> stdout (snd (main mock_404 (default_config\<lparr>max_input_tokens := 5000\<rparr>))) = [error_message]"
  using main_token_limit_exit [of "default_config\<lparr>max_input_tokens := 5000\<rparr>" mock_404]
  by (simp add: default_config_def after_banner_def print_script_signature_def printout_def
      initial_world_def Let_def)

section \<open>The metadata request\<close>

lemma main_pr_exchange_sel:
  "issued_by (main_pr_exchange p cfg) = PrData"
  "sent (main_pr_exchange p cfg)
     = api_request (JStr (pr_url (str_int (pr_number cfg)) (repo_ownr cfg) (repo_name cfg)))
         (gh_token cfg)"
  "received (main_pr_exchange p cfg) = respond p [] (sent (main_pr_exchange p cfg))"
  by (simp_all add: main_pr_exchange_def pr_exchange_def)

lemma filter_none: "(\<forall>y \<in> set xs. \<not> P y) \<Longrightarrow> filter P xs = []"
  by (induction xs) simp_all

text \<open>
  Claim C7, as the code has it: when the token limits let the run go on
  (\<open>max_input_tokens \<le> max_tokens\<close>), \<open>get_pr_data\<close> issues exactly one request, for the
  pull-request resource, if title or body review is requested, and none if both are off;
  when \<open>max_input_tokens > max_tokens\<close> no request is made at all.
\<close>

theorem metadata_fetch_once:
  "metadata_requests (snd (main p cfg))
     = (if max_input_tokens cfg \<le> max_tokens cfg \<and> (review_title cfg \<or> review_body cfg)
        then [main_pr_exchange p cfg] else [])
   \<and> issued_by (main_pr_exchange p cfg) = PrData
   \<and> sent (main_pr_exchange p cfg)
       = api_request (JStr (pr_url (str_int (pr_number cfg)) (repo_ownr cfg) (repo_name cfg)))
           (gh_token cfg)
   \<and> (max_input_tokens cfg > max_tokens cfg \<longrightarrow> trace (snd (main p cfg)) = [])"
proof (cases "max_input_tokens cfg > max_tokens cfg")
  case True
  then show ?thesis
    by (simp add: main_exit metadata_requests_def main_pr_exchange_sel)
next
  case False
  obtain lines files where sh:
    "snd (main p cfg) = (after_limits cfg)\<lparr>stdout := stdout (after_limits cfg) @ lines,
         trace := (if review_title cfg \<or> review_body cfg then [main_pr_exchange p cfg] else [])
                    @ files\<rparr>"
    "\<forall>y \<in> set files. issued_by y \<noteq> PrData"
    using main_run_shape [OF False, of p] by blast
  have "filter (\<lambda>x. issued_by x = PrData) files = []"
    using sh(2) by (intro filter_none) simp
  then show ?thesis
    using False by (simp add: sh(1) metadata_requests_def main_pr_exchange_sel)
qed

theorem metadata_fetch_once_witness:
  "metadata_requests (snd (main mock_404 default_config))
     = [\<lparr>issued_by = PrData,
         sent = api_request (JStr (lit ''https://api.github.com/repos/octo/demo/pulls/1'')) (lit ''t''),
         received = Some (Response 404 None)\<rparr>]
   \<and> metadata_requests
        (snd (main mock_404 (default_config\<lparr>review_title := False, review_body := False\<rparr>))) = []"
  using metadata_fetch_once [of mock_404 default_config]
    metadata_fetch_once [of mock_404 "default_config\<lparr>review_title := False, review_body := False\<rparr>"]
  by (simp add: default_config_def main_pr_exchange_def pr_exchange_def mock_404_def pr_url_def
      lit_def str_int_def str_nat.simps)

text \<open>
  Claim C7 as stated fails for the default options with \<open>--max-input-tokens 5000\<close>:
  title review is requested, and no metadata request is made.
\<close>

theorem metadata_fetch_skipped_by_limit:
  "review_title (default_config\<lparr>max_input_tokens := 5000\<rparr>)
   \<and> metadata_requests (snd (main mock_404 (default_config\<lparr>max_input_tokens := 5000\<rparr>))) = []"
  by (simp add: main_exit metadata_requests_def default_config_def)

section \<open>Failing fetches\<close>

lemma failure_Some: "failure res = Some e \<Longrightarrow> res = Inl e"
  by (cases res) simp_all

lemma failure_message_eq:
  "failure_message who code =
     (if who = FileContent then lit ''Error fetching file contents: ''
      else lit ''Error fetching pull request: '') @ str_int code"
  by (cases who) (simp_all add: failure_message_def)

text \<open>
  Claim C3: when an exchange that \<open>get_pr_file_list\<close> makes (the file list or the content
  of a file) is answered by a status code other than 200, the function raises the
  \<open>Exception\<close> whose message ends with that status code and returns no list; that
  exchange is the last one of the run, so no further file is fetched and nothing is
  retried; and every exchange before it was answered 200.
\<close>

theorem retrieval_aborts_first:
  assumes "x \<in> set (drop (length (trace w)) (trace (snd (get_pr_file_list p n ownr name t w))))"
    and "status_of x = Some code" and "code \<noteq> 200"
  shows "fst (get_pr_file_list p n ownr name t w)
       = Inl (Exception ((if issued_by x = FileContent then lit ''Error fetching file contents: ''
                          else lit ''Error fetching pull request: '') @ str_int code))
     \<and> last (trace (snd (get_pr_file_list p n ownr name t w))) = x
     \<and> (\<forall>y \<in> set (butlast (drop (length (trace w))
              (trace (snd (get_pr_file_list p n ownr name t w))))). status_of y = Some 200)"
proof -
  let ?g = "get_pr_file_list p n ownr name t w"
  let ?fx = "files_exchange p n ownr name t w"
  obtain new where new: "snd ?g = w\<lparr>trace := trace w @ ?fx # new\<rparr>"
    "aborts_first (?fx # new) (failure (fst ?g))"
    using get_pr_file_list_run [of p n ownr name t w] by blast
  have tr: "drop (length (trace w)) (trace (snd ?g)) = ?fx # new"
    by (simp add: new(1))
  have x: "x \<in> set (?fx # new)" using assms(1) unfolding tr .
  from aborts_first_last [OF new(2) x assms(2,3)]
  have l: "x = last (?fx # new)"
    and f: "fst ?g = Inl (Exception (failure_message (issued_by x) code))"
    by (simp_all add: failure_Some)
  have "last (trace (snd ?g)) = x" unfolding new(1) l by simp
  moreover have "\<forall>y \<in> set (butlast (?fx # new)). status_of y = Some 200"
    using new(2) unfolding aborts_first_def by blast
  ultimately show ?thesis unfolding tr using f by (simp only: failure_message_eq simp_thms)
qed


text \<open>
  The mocked file list names two files; the content of the first is answered 404, and
  the second is never asked for.
\<close>

lemmas run_simps = get_pr_file_list_def requests_get_def Let_def api_request_def files_url_def
  lit_def response_json_def py_iter_def py_getitem_def get_file_content_def initial_world_def
  status_of_def api_headers_def

lemma mock_files_404_run:
  "get_pr_file_list mock_files_404 (lit ''1'') (lit ''octo'') (lit ''demo'') (lit ''t'') initial_world
   = (Inl (Exception (lit ''Error fetching file contents: 404'')),
      \<lparr>stdout = [],
       trace = [files_exchange mock_files_404 (lit ''1'') (lit ''octo'') (lit ''demo'') (lit ''t'')
                  initial_world,
                failed_content_exchange],
       DEBUG = False\<rparr>)"
  by (simp add: run_simps mock_files_404_def failed_content_exchange_def files_exchange_def
      str_int_def str_nat.simps)

theorem retrieval_aborts_first_witness:
  "failed_content_exchange \<in> set (drop (length (trace initial_world))
      (trace (snd (get_pr_file_list mock_files_404 (lit ''1'') (lit ''octo'') (lit ''demo'')
                     (lit ''t'') initial_world))))
   \<and> status_of failed_content_exchange = Some 404
   \<and> fst (get_pr_file_list mock_files_404 (lit ''1'') (lit ''octo'') (lit ''demo'') (lit ''t'')
            initial_world)
       = Inl (Exception (lit ''Error fetching file contents: '' @ str_int 404))
   \<and> last (trace (snd (get_pr_file_list mock_files_404 (lit ''1'') (lit ''octo'') (lit ''demo'')
                     (lit ''t'') initial_world))) = failed_content_exchange
   \<and> length (trace (snd (get_pr_file_list mock_files_404 (lit ''1'') (lit ''octo'') (lit ''demo'')
                     (lit ''t'') initial_world))) = 2"
proof -
  have a: "failed_content_exchange \<in> set (drop (length (trace initial_world))
      (trace (snd (get_pr_file_list mock_files_404 (lit ''1'') (lit ''octo'') (lit ''demo'')
                     (lit ''t'') initial_world))))"
    unfolding mock_files_404_run by (simp add: initial_world_def)
  have b: "status_of failed_content_exchange = Some 404"
    by (simp add: status_of_def failed_content_exchange_def)
  have c: "(404::int) \<noteq> 200" by simp
  show ?thesis
    using a b retrieval_aborts_first [OF a b c]
    by (simp add: mock_files_404_run failed_content_exchange_def)
qed

section \<open>Which exceptions can leave \<open>main\<close>\<close>

lemma is_exit_simps [simp]:
  "is_exit (SystemExit n)" "\<not> is_exit (Exception m)" "\<not> is_exit (KeyError k)"
  "\<not> is_exit TypeError" "\<not> is_exit ValueError" "\<not> is_exit BinasciiError"
  "\<not> is_exit UnicodeEncodeError" "\<not> is_exit UnicodeDecodeError" "\<not> is_exit JSONDecodeError"
  "\<not> is_exit RequestException"
  by (simp_all add: is_exit_def)

lemma utf8_decode_char_error: "utf8_decode_char b0 bs = Inl e \<Longrightarrow> e = UnicodeDecodeError"
  by (auto simp: utf8_decode_char_def split: if_splits list.splits)

lemma utf8_decode_error: "utf8_decode bs = Inl e \<Longrightarrow> e = UnicodeDecodeError"
proof (induction bs rule: utf8_decode.induct)
  case 1
  then show ?case by simp
next
  case (2 b0 bs)
  show ?case
  proof (cases "utf8_decode_char b0 bs")
    case (Inl e')
    then show ?thesis using "2.prems" utf8_decode_char_error [OF Inl] by simp
  next
    case (Inr ck)
    obtain c k where ck: "ck = (c, k)" by (cases ck)
    show ?thesis
      using "2.prems" "2.IH" [OF Inr [unfolded ck] refl] Inr ck
      by (auto split: sum.splits)
  qed
qed

lemma a2b_loop_error: "a2b_loop d q l pads out = Inl e \<Longrightarrow> e = BinasciiError"
  by (induction d q l pads out rule: a2b_loop.induct) (auto split: if_splits option.splits)

lemma base64_to_string_error: "base64_to_string b = Inl e \<Longrightarrow> \<not> is_exit e"
proof -
  assume a: "base64_to_string b = Inl e"
  have d: "b64decode b = Inl e' \<Longrightarrow> \<not> is_exit e'" for e'
    by (auto simp: b64decode_def a2b_base64_def split: b64_arg.splits json.splits if_splits
        dest: a2b_loop_error)
  show ?thesis
    using a d by (auto simp: base64_to_string_def split: sum.splits dest: utf8_decode_error)
qed

lemma py_getitem_error: "py_getitem v k = Inl e \<Longrightarrow> \<not> is_exit e"
  by (auto simp: py_getitem_def split: json.splits option.splits)

lemma py_iter_error: "py_iter v = Inl e \<Longrightarrow> \<not> is_exit e"
  by (auto simp: py_iter_def split: json.splits)

lemma get_file_content_error: "fst (get_file_content p u t w) = Inl e \<Longrightarrow> \<not> is_exit e"
  by (auto simp: get_file_content_def requests_get_def Let_def response_json_def
      split: option.splits if_splits sum.splits
      dest: base64_to_string_error py_getitem_error)


lemma file_loop_error: "fst (file_loop p t files acc w) = Inl e \<Longrightarrow> \<not> is_exit e"
proof (induction files arbitrary: acc w)
  case Nil
  then show ?case by simp
next
  case (Cons entry rest)
  show ?case
  proof (cases "py_getitem entry (lit ''filename'')")
    case (Inl e')
    then show ?thesis using Cons.prems py_getitem_error [OF Inl] by simp
  next
    case fn: (Inr filename)
    show ?thesis
    proof (cases "py_getitem entry (lit ''patch'')")
      case (Inl e')
      then show ?thesis using Cons.prems fn py_getitem_error [OF Inl] by simp
    next
      case pa: (Inr patch)
      show ?thesis
      proof (cases "py_getitem entry (lit ''contents_url'')")
        case (Inl e')
        then show ?thesis using Cons.prems fn pa py_getitem_error [OF Inl] by simp
      next
        case cu: (Inr u)
        obtain r w' where g: "get_file_content p u t w = (r, w')"
          by (cases "get_file_content p u t w")
        show ?thesis
        proof (cases r)
          case (Inl e')
          then have "e' = e" using Cons.prems fn pa cu g by simp
          then show ?thesis using get_file_content_error [of p u t w e'] g Inl by simp
        next
          case (Inr content)
          then show ?thesis using Cons.prems fn pa cu g Cons.IH by simp
        qed
      qed
    qed
  qed
qed

lemma get_pr_file_list_error:
  "fst (get_pr_file_list p n ownr name t w) = Inl e \<Longrightarrow> \<not> is_exit e"
  by (auto simp: get_pr_file_list_def requests_get_def Let_def response_json_def
      split: option.splits if_splits sum.splits
      dest: file_loop_error py_iter_error)

lemma review_files_error:
  assumes "fst (review_files p cfg w) = Inl e"
  shows "\<not> is_exit e"
proof -
  let ?g = "get_pr_file_list p (str_int (pr_number cfg)) (repo_ownr cfg) (repo_name cfg)
              (gh_token cfg) (printout (lit ''Reviewing the files:'') (verbose cfg) w)"
  obtain r w' where g: "?g = (r, w')" by (cases ?g)
  have "fst (review_files p cfg w) = (case r of Inl e \<Rightarrow> Inl e | Inr v \<Rightarrow> Inr ())"
    unfolding review_files_def Let_def g by (cases r) simp_all
  with assms have "r = Inl e" by (cases r) simp_all
  then have "fst ?g = Inl e" using g by simp
  then show ?thesis by (rule get_pr_file_list_error)
qed

lemma review_title_body_error: "fst (review_title_body p cfg w) = Inl e \<Longrightarrow> \<not> is_exit e"
  by (auto simp: review_title_body_def get_pr_data_eq response_json_def Let_def
      split: option.splits if_splits sum.splits dest: py_getitem_error)

lemma main_no_exit:
  assumes "\<not> max_input_tokens cfg > max_tokens cfg"
  shows "fst (main p cfg) \<noteq> Raised (SystemExit n)"
proof
  assume a: "fst (main p cfg) = Raised (SystemExit n)"
  let ?s1 = "if review_title cfg \<or> review_body cfg
            then review_title_body p cfg (after_limits cfg) else (Inr (), after_limits cfg)"
  obtain r1 w1 where s1: "?s1 = (r1, w1)" by (cases ?s1)
  have r1: "r1 = Inl e \<Longrightarrow> \<not> is_exit e" for e
    using s1 review_title_body_error [of p cfg "after_limits cfg" e]
    by (auto split: if_splits)
  obtain r2 w2 where s2: "review_files p cfg w1 = (r2, w2)" by (cases "review_files p cfg w1")
  have r2: "r2 = Inl e \<Longrightarrow> \<not> is_exit e" for e
    using s2 review_files_error [of p cfg w1 e] by simp
  have "main p cfg = (case r1 of Inl e \<Rightarrow> (Raised e, w1)
      | Inr u \<Rightarrow> (if review_diffs cfg \<noteq> False
           then (case r2 of Inl e \<Rightarrow> (Raised e, w2) | Inr u \<Rightarrow> (Returned, w2))
           else (Returned, w1)))"
    unfolding main_run [OF assms] s1 by (simp add: s2 split: sum.splits)
  with a r1 r2 show False
    by (auto split: sum.splits if_splits)
qed

section \<open>Warning and exit status\<close>

lemma exit_status_Raised: "\<not> is_exit e \<Longrightarrow> exit_status (Raised e) = 1"
  by (cases e) simp_all

lemma main_raised_not_exit:
  assumes "\<not> max_input_tokens cfg > max_tokens cfg" "fst (main p cfg) = Raised e"
  shows "\<not> is_exit e"
proof (cases e)
  case (SystemExit n)
  then show ?thesis using main_no_exit [OF assms(1), of p n] assms(2) by simp
qed simp_all

lemma after_limits_equal:
  "max_input_tokens cfg = max_tokens cfg \<Longrightarrow>
   stdout (after_limits cfg) = stdout (after_banner cfg) @ [warn_message]"
  by (simp add: after_limits_def)

text \<open>
  Claim C8: with \<open>max_input_tokens = max_tokens\<close>, \<open>main\<close> prints the warning right after
  the banner and the debug block and does not exit: it goes on to the fetch stages, so
  that the first request is the metadata request when title or body review is on, and the
  file-list request when only diff review is on.
\<close>

theorem main_equal_limits_warns:
  assumes "max_input_tokens cfg = max_tokens cfg"
  shows "prefix (stdout (after_banner cfg) @ [warn_message]) (stdout (snd (main p cfg)))
     \<and> warn_message \<in> set (stdout (snd (main p cfg)))
     \<and> (\<forall>n. fst (main p cfg) \<noteq> Raised (SystemExit n))
     \<and> (review_title cfg \<or> review_body cfg \<longrightarrow>
          trace (snd (main p cfg)) \<noteq> [] \<and> hd (trace (snd (main p cfg))) = main_pr_exchange p cfg)
     \<and> (\<not> (review_title cfg \<or> review_body cfg) \<and> review_diffs cfg \<longrightarrow>
          trace (snd (main p cfg)) \<noteq> []
          \<and> hd (trace (snd (main p cfg)))
              = files_exchange p (str_int (pr_number cfg)) (repo_ownr cfg) (repo_name cfg)
                  (gh_token cfg) (after_limits cfg))"
proof -
  have ng: "\<not> max_input_tokens cfg > max_tokens cfg" using assms by simp
  obtain lines files where sh:
    "snd (main p cfg) = (after_limits cfg)\<lparr>stdout := stdout (after_limits cfg) @ lines,
         trace := (if review_title cfg \<or> review_body cfg then [main_pr_exchange p cfg] else [])
                    @ files\<rparr>"
    "\<not> (review_title cfg \<or> review_body cfg) \<and> review_diffs cfg \<longrightarrow> files \<noteq> []
          \<and> hd files = files_exchange p (str_int (pr_number cfg)) (repo_ownr cfg)
                (repo_name cfg) (gh_token cfg) (after_limits cfg)"
    using main_run_shape [OF ng, of p] by blast
  have out: "stdout (snd (main p cfg)) = (stdout (after_banner cfg) @ [warn_message]) @ lines"
    unfolding sh(1) by (simp add: after_limits_equal [OF assms])
  have "prefix (stdout (after_banner cfg) @ [warn_message]) (stdout (snd (main p cfg)))"
    unfolding out by (rule prefixI) simp
  moreover have "warn_message \<in> set (stdout (snd (main p cfg)))" unfolding out by simp
  moreover have "\<forall>n. fst (main p cfg) \<noteq> Raised (SystemExit n)"
    using main_no_exit [OF ng] by blast
  moreover have "review_title cfg \<or> review_body cfg \<longrightarrow>
          trace (snd (main p cfg)) \<noteq> [] \<and> hd (trace (snd (main p cfg))) = main_pr_exchange p cfg"
    unfolding sh(1) by simp
  moreover have "\<not> (review_title cfg \<or> review_body cfg) \<and> review_diffs cfg \<longrightarrow>
          trace (snd (main p cfg)) \<noteq> []
          \<and> hd (trace (snd (main p cfg)))
              = files_exchange p (str_int (pr_number cfg)) (repo_ownr cfg) (repo_name cfg)
                  (gh_token cfg) (after_limits cfg)"
    unfolding sh(1) using sh(2) by simp
  ultimately show ?thesis by blast
qed

lemmas main_simps = main_def Let_def default_config_def print_script_signature_def printout_def
  initial_world_def print_def review_title_body_def get_pr_data_def requests_get_def
  api_request_def api_headers_def pr_url_def lit_def str_int_def str_nat.simps

lemma main_mock_404_default:
  "main mock_404 default_config
   = (Raised (Exception (lit ''Error fetching pull request: 404'')),
      \<lparr>stdout = [warn_message],
       trace = [\<lparr>issued_by = PrData,
                 sent = api_request (JStr (lit ''https://api.github.com/repos/octo/demo/pulls/1''))
                          (lit ''t''),
                 received = Some (Response 404 None)\<rparr>],
       DEBUG = False\<rparr>)"
  by (simp add: main_simps mock_404_def)

theorem main_equal_limits_warns_witness:
  "max_input_tokens default_config = max_tokens default_config
   \<and> stdout (snd (main mock_404 default_config)) = [warn_message]
   \<and> fst (main mock_404 default_config) = Raised (Exception (lit ''Error fetching pull request: 404''))
   \<and> length (trace (snd (main mock_404 default_config))) = 1"
  using main_equal_limits_warns [of default_config mock_404]
  by (simp add: main_mock_404_default) (simp add: default_config_def)


text \<open>
  Claim C5, as the code has it: \<open>main\<close> leaves by \<open>exit(1)\<close>, after printing the error
  line, exactly when \<open>max_input_tokens > max_tokens\<close>.  Otherwise the exit status is 0
  exactly when \<open>main\<close> returns, and 1 when an exception leaves it; in particular an
  exchange answered by a status code other than 200 makes \<open>main\<close> raise the \<open>Exception\<close>
  with that code, and the exit status is 1.
\<close>

theorem exit_status_cases:
  "(fst (main p cfg) = Raised (SystemExit 1)) = (max_input_tokens cfg > max_tokens cfg)
   \<and> (max_input_tokens cfg > max_tokens cfg \<longrightarrow>
        exit_status (fst (main p cfg)) = 1 \<and> last (stdout (snd (main p cfg))) = error_message)
   \<and> (exit_status (fst (main p cfg)) = 0) = (fst (main p cfg) = Returned)
   \<and> (fst (main p cfg) \<noteq> Returned \<longrightarrow> exit_status (fst (main p cfg)) = 1)
   \<and> (\<forall>x \<in> set (trace (snd (main p cfg))). \<forall>c. status_of x = Some c \<and> c \<noteq> 200 \<longrightarrow>
        fst (main p cfg) = Raised (Exception (failure_message (issued_by x) c))
        \<and> exit_status (fst (main p cfg)) = 1)"
proof (cases "max_input_tokens cfg > max_tokens cfg")
  case True
  then show ?thesis by (simp add: main_exit)
next
  case False
  have st: "exit_status (fst (main p cfg)) = (if fst (main p cfg) = Returned then 0 else 1)"
  proof (cases "fst (main p cfg)")
    case Returned
    then show ?thesis by simp
  next
    case (Raised e)
    then show ?thesis
      using main_raised_not_exit [OF False Raised] by (simp add: exit_status_Raised)
  qed
  obtain lines files where sh:
    "snd (main p cfg) = (after_limits cfg)\<lparr>stdout := stdout (after_limits cfg) @ lines,
         trace := (if review_title cfg \<or> review_body cfg then [main_pr_exchange p cfg] else [])
                    @ files\<rparr>"
    "aborts_first ((if review_title cfg \<or> review_body cfg then [main_pr_exchange p cfg] else [])
                       @ files) (outcome_error (fst (main p cfg)))"
    using main_run_shape [OF False, of p] by blast
  have tr: "trace (snd (main p cfg))
      = (if review_title cfg \<or> review_body cfg then [main_pr_exchange p cfg] else []) @ files"
    unfolding sh(1) by simp
  have bad: "fst (main p cfg) = Raised (Exception (failure_message (issued_by x) c))"
    if "x \<in> set (trace (snd (main p cfg)))" "status_of x = Some c" "c \<noteq> 200" for x c
  proof -
    have "outcome_error (fst (main p cfg)) = Some (Exception (failure_message (issued_by x) c))"
      using aborts_first_last [OF sh(2) that(1) [unfolded tr] that(2,3)] by simp
    then show ?thesis by (cases "fst (main p cfg)") (simp_all add: outcome_error_def)
  qed
  have "fst (main p cfg) \<noteq> Raised (SystemExit 1)" using main_no_exit [OF False] by blast
  then show ?thesis using False st bad by auto
qed

theorem exit_status_cases_witness:
  "status_of (hd (trace (snd (main mock_404 default_config)))) = Some 404
   \<and> fst (main mock_404 default_config) = Raised (Exception (failure_message PrData 404))
   \<and> exit_status (fst (main mock_404 default_config)) = 1
   \<and> exit_status (fst (main mock_404 (default_config\<lparr>max_input_tokens := 5000\<rparr>))) = 1"
  using exit_status_cases [of mock_404 default_config]
    exit_status_cases [of mock_404 "default_config\<lparr>max_input_tokens := 5000\<rparr>"]
  by (simp add: main_mock_404_default status_of_def failure_message_def lit_def str_int_def
      str_nat.simps) (simp add: default_config_def)

text \<open>
  Claim C5 as stated fails for the default options when the metadata endpoint answers
  404: \<open>max_input_tokens > max_tokens\<close> does not hold, and the exit status is 1, not 0.
\<close>

theorem fetch_failure_exit_status:
  "\<not> max_input_tokens default_config > max_tokens default_config
   \<and> exit_status (fst (main mock_404 default_config)) = 1
   \<and> exit_status (fst (main mock_404 default_config)) \<noteq> 0"
  by (simp add: main_mock_404_default) (simp add: default_config_def)

section \<open>The changed files\<close>

lemma get_file_content_ok:
  assumes "respond p (map sent (trace w)) (api_request u t) = Some (Response 200 (Some j))"
    and "py_getitem j (lit ''content'') = Inr c"
    and "base64_to_string (ArgJson c) = Inr content"
  shows "get_file_content p u t w
     = (Inr content, w\<lparr>trace := trace w @ [\<lparr>issued_by = FileContent, sent = api_request u t,
                                            received = Some (Response 200 (Some j))\<rparr>]\<rparr>)"
  using assms by (simp add: get_file_content_def requests_get_def Let_def response_json_def)

lemma file_loop_ok:
  assumes "list_all2 (answers p t) entries tuples"
  shows "fst (file_loop p t entries acc w) = Inr (acc @ tuples)
     \<and> length (trace (snd (file_loop p t entries acc w))) = length (trace w) + length entries"
  using assms
proof (induction entries tuples arbitrary: acc w rule: list_all2_induct)
  case Nil
  show ?case by simp
next
  case (Cons entry entries tuple tuples)
  obtain filename patch content where tu: "tuple = (filename, patch, content)" by (cases tuple)
  from Cons.hyps(1) have e: "py_getitem entry (lit ''filename'') = Inr filename"
       "py_getitem entry (lit ''patch'') = Inr patch"
    and ex: "\<exists>u. py_getitem entry (lit ''contents_url'') = Inr u
             \<and> (\<forall>h. \<exists>j c. respond p h (api_request u t) = Some (Response 200 (Some j))
                    \<and> py_getitem j (lit ''content'') = Inr c
                    \<and> base64_to_string (ArgJson c) = Inr content)"
    unfolding answers_def tu by simp_all
  from ex obtain u where u: "py_getitem entry (lit ''contents_url'') = Inr u"
    and all: "\<forall>h. \<exists>j c. respond p h (api_request u t) = Some (Response 200 (Some j))
                    \<and> py_getitem j (lit ''content'') = Inr c
                    \<and> base64_to_string (ArgJson c) = Inr content"
    by blast
  from all obtain j c where
    r: "respond p (map sent (trace w)) (api_request u t) = Some (Response 200 (Some j))"
       "py_getitem j (lit ''content'') = Inr c" "base64_to_string (ArgJson c) = Inr content"
    by blast
  let ?w = "w\<lparr>trace := trace w @ [\<lparr>issued_by = FileContent, sent = api_request u t,
                                            received = Some (Response 200 (Some j))\<rparr>]\<rparr>"
  have step: "file_loop p t (entry # entries) acc w
      = file_loop p t entries (acc @ [(filename, patch, content)]) ?w"
    by (simp add: e u get_file_content_ok [OF r])
  show ?case
    unfolding step using Cons.IH [of "acc @ [(filename, patch, content)]" ?w] by (simp add: tu)
qed



lemmas codec_simps = base64_to_string_def b64decode_def a2b_base64_def b64_value_def BASE64_PAD_def
  utf8_decode_char_def continuation_def string_to_base64_def utf8_encode_char_def b64_char_def
  Let_def lit_def

lemma decode_print_1:
  "base64_to_string (ArgJson (JStr (lit ''cHJpbnQoMSk=''))) = Inr (lit ''print(1)'')"
  by (simp add: codec_simps)


lemma mock_one_file_answers:
  "answers mock_one_file (lit ''t'')
     (JObj [(lit ''filename'', JStr (lit ''a.py'')), (lit ''patch'', JStr (lit ''@@ ...'')),
            (lit ''contents_url'', JStr (lit ''https://api.github.com/a''))])
     (JStr (lit ''a.py''), JStr (lit ''@@ ...''), lit ''print(1)'')"
proof -
  have "url (api_request (JStr (lit ''https://api.github.com/a'')) (lit ''t''))
      \<noteq> JStr (files_url (lit ''1'') (lit ''octo'') (lit ''demo''))"
    by (simp add: api_request_def files_url_def lit_def)
  then show ?thesis
    unfolding answers_def
    by (simp add: py_getitem_def mock_one_file_def decode_print_1) (simp add: lit_def)
qed


section \<open>The option \<open>max_files\<close>\<close>

lemma file_loop_length:
  "fst (file_loop p t files acc w) = Inr fl \<Longrightarrow> length fl = length acc + length files"
proof (induction files arbitrary: acc w)
  case Nil
  then show ?case by simp
next
  case (Cons entry rest)
  from Cons.prems obtain filename patch u where
    e: "py_getitem entry (lit ''filename'') = Inr filename"
       "py_getitem entry (lit ''patch'') = Inr patch"
       "py_getitem entry (lit ''contents_url'') = Inr u"
    by (auto split: sum.splits)
  obtain r w' where g: "get_file_content p u t w = (r, w')" by (cases "get_file_content p u t w")
  from Cons.prems e g obtain content where c: "r = Inr content" by (cases r) simp_all
  have "fst (file_loop p t rest (acc @ [(filename, patch, content)]) w') = Inr fl"
    using Cons.prems e g c by simp
  from Cons.IH [OF this] show ?case by simp
qed

lemma get_pr_file_list_length:
  assumes "fst (get_pr_file_list p n ownr name t w) = Inr fl"
  shows "\<exists>r j files. received (files_exchange p n ownr name t w) = Some r \<and> status_code r = 200
           \<and> body r = Some j \<and> py_iter j = Inr files \<and> length fl = length files"
proof -
  let ?x = "files_exchange p n ownr name t w"
  let ?w = "w\<lparr>trace := trace w @ [?x]\<rparr>"
  have rq: "requests_get p FileList (JStr (files_url n ownr name)) t w = (received ?x, ?w)"
    by (simp add: requests_get_def Let_def files_exchange_def)
  from assms obtain r where r: "received ?x = Some r"
    unfolding get_pr_file_list_def rq by (cases "received ?x") simp_all
  from assms r have ok: "status_code r = 200"
    unfolding get_pr_file_list_def rq by (cases "status_code r = 200") simp_all
  from assms r ok obtain j where j: "body r = Some j"
    unfolding get_pr_file_list_def rq by (cases "body r") (simp_all add: response_json_def)
  from assms r ok j obtain files where f: "py_iter j = Inr files"
    unfolding get_pr_file_list_def rq by (cases "py_iter j") (simp_all add: response_json_def)
  have "fst (file_loop p t files [] ?w) = Inr fl"
    using assms r ok j f unfolding get_pr_file_list_def rq by (simp add: response_json_def)
  from file_loop_length [OF this] show ?thesis using r ok j f by simp
qed

lemma stages_max_files:
  "program_call (cfg\<lparr>max_files := m\<rparr>) w = program_call cfg w"
  "review_title_body p (cfg\<lparr>max_files := m\<rparr>) w = review_title_body p cfg w"
  "review_files p (cfg\<lparr>max_files := m\<rparr>) w = review_files p cfg w"
  by (simp_all add: program_call_def review_title_body_def review_files_def Let_def
      split: prod.splits sum.splits)

lemma main_max_files: "main p (cfg\<lparr>max_files := m\<rparr>) = main p cfg"
  by (simp add: main_def Let_def stages_max_files split: prod.splits sum.splits)

text \<open>
  Claim C4: \<open>max_files\<close> is never applied.  Two runs of \<open>main\<close> that differ only in
  \<open>max_files\<close> are equal (outcome, output and HTTP exchanges), the call of
  \<open>get_pr_file_list\<close> that \<open>main\<close> makes is the same for both, and the list it returns
  has as many tuples as the file-list response has entries.
\<close>

theorem max_files_not_applied:
  "main p (cfg\<lparr>max_files := m\<rparr>) = main p cfg
   \<and> get_pr_file_list p (str_int (pr_number (cfg\<lparr>max_files := m\<rparr>)))
        (repo_ownr (cfg\<lparr>max_files := m\<rparr>)) (repo_name (cfg\<lparr>max_files := m\<rparr>))
        (gh_token (cfg\<lparr>max_files := m\<rparr>)) w
      = get_pr_file_list p (str_int (pr_number cfg)) (repo_ownr cfg) (repo_name cfg)
          (gh_token cfg) w
   \<and> (fst (get_pr_file_list p n ownr name t w) = Inr fl \<longrightarrow>
        (\<exists>r j files. received (files_exchange p n ownr name t w) = Some r \<and> status_code r = 200
           \<and> body r = Some j \<and> py_iter j = Inr files \<and> length fl = length files))"
  using get_pr_file_list_length [of p n ownr name t w fl] by (simp add: main_max_files)

lemma mock_one_file_run:
  "fst (get_pr_file_list mock_one_file (lit ''1'') (lit ''octo'') (lit ''demo'') (lit ''t'')
          initial_world)
   = Inr [(JStr (lit ''a.py''), JStr (lit ''@@ ...''), lit ''print(1)'')]"
proof -
  let ?entry = "JObj [(lit ''filename'', JStr (lit ''a.py'')), (lit ''patch'', JStr (lit ''@@ ...'')),
                      (lit ''contents_url'', JStr (lit ''https://api.github.com/a''))]"
  let ?w = "initial_world\<lparr>trace := trace initial_world
              @ [files_exchange mock_one_file (lit ''1'') (lit ''octo'') (lit ''demo'') (lit ''t'')
                   initial_world]\<rparr>"
  have "get_pr_file_list mock_one_file (lit ''1'') (lit ''octo'') (lit ''demo'') (lit ''t'')
          initial_world = file_loop mock_one_file (lit ''t'') [?entry] [] ?w"
    by (simp add: get_pr_file_list_def requests_get_def Let_def response_json_def py_iter_def
        files_exchange_def mock_one_file_def api_request_def)
  then show ?thesis
    using file_loop_ok [of mock_one_file "lit ''t''" "[?entry]"
        "[(JStr (lit ''a.py''), JStr (lit ''@@ ...''), lit ''print(1)'')]" "[]" ?w]
      mock_one_file_answers
    by simp
qed

theorem max_files_not_applied_witness:
  "max_files (default_config\<lparr>max_files := 0\<rparr>) = 0
   \<and> main mock_one_file (default_config\<lparr>max_files := 0\<rparr>) = main mock_one_file default_config
   \<and> fst (get_pr_file_list mock_one_file (lit ''1'') (lit ''octo'') (lit ''demo'') (lit ''t'')
            initial_world)
       = Inr [(JStr (lit ''a.py''), JStr (lit ''@@ ...''), lit ''print(1)'')]
   \<and> length [(JStr (lit ''a.py''), JStr (lit ''@@ ...''), lit ''print(1)'')] = (1::nat)"
  using max_files_not_applied [where p = mock_one_file and cfg = default_config and m = 0
      and w = initial_world and n = "lit ''1''" and ownr = "lit ''octo''" and name = "lit ''demo''"
      and t = "lit ''t''"
      and fl = "[(JStr (lit ''a.py''), JStr (lit ''@@ ...''), lit ''print(1)'')]"]
    mock_one_file_run
  by simp

section \<open>Title and body in the output\<close>







section \<open>The debug flag\<close>

lemma after_banner_debug:
  assumes "debug cfg"
  shows "after_banner (cfg\<lparr>verbose := v\<rparr>)
       = (after_banner cfg)\<lparr>stdout := (stdout (after_banner cfg))[9 := verbose_line v]\<rparr>"
    and "length (stdout (after_banner cfg)) = 12"
  using assms
  by (simp_all add: after_banner_def print_script_signature_def program_call_def printout_def
      print_def initial_world_def Let_def verbose_line_def)

lemma after_limits_debug:
  assumes "debug cfg"
  shows "after_limits (cfg\<lparr>verbose := v\<rparr>)
       = (after_limits cfg)\<lparr>stdout := (stdout (after_limits cfg))[9 := verbose_line v]\<rparr>"
    and "9 < length (stdout (after_limits cfg))"
  using after_banner_debug [OF assms]
  by (simp_all add: after_limits_def list_update_append1)

lemma get_file_content_frame:
  "get_file_content p u t (w\<lparr>stdout := s\<rparr>)
     = (fst (get_file_content p u t w), (snd (get_file_content p u t w))\<lparr>stdout := s\<rparr>)"
  by (simp add: get_file_content_def requests_get_def Let_def
      split: option.splits sum.splits)

lemma file_loop_frame:
  "file_loop p t files acc (w\<lparr>stdout := s\<rparr>)
     = (fst (file_loop p t files acc w), (snd (file_loop p t files acc w))\<lparr>stdout := s\<rparr>)"
proof (induction files arbitrary: acc w)
  case Nil
  show ?case by simp
next
  case (Cons entry rest)
  show ?case
  proof (cases "py_getitem entry (lit ''filename'')")
    case (Inl e)
    then show ?thesis by simp
  next
    case fn: (Inr filename)
    show ?thesis
    proof (cases "py_getitem entry (lit ''patch'')")
      case (Inl e)
      then show ?thesis using fn by simp
    next
      case pa: (Inr patch)
      show ?thesis
      proof (cases "py_getitem entry (lit ''contents_url'')")
        case (Inl e)
        then show ?thesis using fn pa by simp
      next
        case cu: (Inr u)
        obtain r w' where g: "get_file_content p u t w = (r, w')"
          by (cases "get_file_content p u t w")
        have g': "get_file_content p u t (w\<lparr>stdout := s\<rparr>) = (r, w'\<lparr>stdout := s\<rparr>)"
          unfolding get_file_content_frame g by simp
        show ?thesis
        proof (cases r)
          case (Inl e)
          then show ?thesis using fn pa cu g g' by simp
        next
          case (Inr content)
          then show ?thesis using fn pa cu g g' Cons.IH by simp
        qed
      qed
    qed
  qed
qed

lemma get_pr_file_list_frame:
  "get_pr_file_list p n ownr name t (w\<lparr>stdout := s\<rparr>)
     = (fst (get_pr_file_list p n ownr name t w),
        (snd (get_pr_file_list p n ownr name t w))\<lparr>stdout := s\<rparr>)"
proof -
  let ?x = "files_exchange p n ownr name t w"
  let ?w = "w\<lparr>trace := trace w @ [?x]\<rparr>"
  have rq: "requests_get p FileList (JStr (files_url n ownr name)) t w = (received ?x, ?w)"
    by (simp add: requests_get_def Let_def files_exchange_def)
  have rq': "requests_get p FileList (JStr (files_url n ownr name)) t (w\<lparr>stdout := s\<rparr>)
      = (received ?x, ?w\<lparr>stdout := s\<rparr>)"
    by (simp add: requests_get_def Let_def files_exchange_def)
  show ?thesis
    unfolding get_pr_file_list_def rq rq'
    by (simp add: file_loop_frame split: option.splits sum.splits)
qed

lemma review_files_frame:
  assumes "DEBUG w"
  shows "review_files p (cfg\<lparr>verbose := v\<rparr>) (w\<lparr>stdout := s\<rparr>)
     = (fst (review_files p cfg w),
        (snd (review_files p cfg w))\<lparr>stdout := s @ [lit ''Reviewing the files:'']\<rparr>)"
    and "stdout (snd (review_files p cfg w)) = stdout w @ [lit ''Reviewing the files:'']"
    and "DEBUG (snd (review_files p cfg w))"
proof -
  let ?m = "lit ''Reviewing the files:''"
  let ?g = "get_pr_file_list p (str_int (pr_number cfg)) (repo_ownr cfg) (repo_name cfg) (gh_token cfg) w"
  obtain r w' where g: "?g = (r, w')" by (cases ?g)
  have p1: "printout ?m v' w = w\<lparr>stdout := stdout w @ [?m]\<rparr>" for v'
    using assms by (simp add: printout_eq print_def)
  have p2: "printout ?m v' (w\<lparr>stdout := s\<rparr>) = w\<lparr>stdout := s @ [?m]\<rparr>" for v'
    using assms by (simp add: printout_eq print_def)
  have 1: "review_files p cfg w = ((case r of Inl e \<Rightarrow> Inl e | Inr x \<Rightarrow> Inr ()),
      w'\<lparr>stdout := stdout w @ [?m]\<rparr>)"
    unfolding review_files_def Let_def p1 get_pr_file_list_frame g by (cases r) simp_all
  have 2: "review_files p (cfg\<lparr>verbose := v\<rparr>) (w\<lparr>stdout := s\<rparr>)
      = ((case r of Inl e \<Rightarrow> Inl e | Inr x \<Rightarrow> Inr ()), w'\<lparr>stdout := s @ [?m]\<rparr>)"
    unfolding review_files_def Let_def by (cases r) (simp_all add: p2 get_pr_file_list_frame g)
  show "review_files p (cfg\<lparr>verbose := v\<rparr>) (w\<lparr>stdout := s\<rparr>)
     = (fst (review_files p cfg w),
        (snd (review_files p cfg w))\<lparr>stdout := s @ [lit ''Reviewing the files:'']\<rparr>)"
    unfolding 1 2 by simp
  show "stdout (snd (review_files p cfg w)) = stdout w @ [lit ''Reviewing the files:'']"
    unfolding 1 by simp
  obtain new where "snd ?g = w\<lparr>trace := trace w @ files_exchange p (str_int (pr_number cfg))
      (repo_ownr cfg) (repo_name cfg) (gh_token cfg) w # new\<rparr>"
    using get_pr_file_list_run [of p _ _ _ _ w] by blast
  then have "DEBUG w' = DEBUG w" using g by simp
  then show "DEBUG (snd (review_files p cfg w))" unfolding 1 using assms by simp
qed

lemma review_title_body_frame:
  assumes "DEBUG w"
  shows "review_title_body p (cfg\<lparr>verbose := v\<rparr>) (w\<lparr>stdout := s\<rparr>)
     = (fst (review_title_body p cfg w),
        (snd (review_title_body p cfg w))
          \<lparr>stdout := s @ drop (length (stdout w)) (stdout (snd (review_title_body p cfg w)))\<rparr>)"
  using assms
  by (simp add: review_title_body_def get_pr_data_eq pr_exchange_def printout_eq print_def Let_def
      split: option.splits sum.splits)


lemma review_title_body_lockstep:
  assumes "DEBUG w" "9 < length (stdout w)"
  shows "review_title_body p (cfg\<lparr>verbose := v\<rparr>) (w\<lparr>stdout := (stdout w)[9 := l]\<rparr>)
     = (fst (review_title_body p cfg w),
        (snd (review_title_body p cfg w))
          \<lparr>stdout := (stdout (snd (review_title_body p cfg w)))[9 := l]\<rparr>)"
    and "DEBUG (snd (review_title_body p cfg w))"
    and "9 < length (stdout (snd (review_title_body p cfg w)))"
proof -
  obtain lines where sn: "snd (review_title_body p cfg w)
       = w\<lparr>stdout := stdout w @ lines,
           trace := trace w @ [pr_exchange p (str_int (pr_number cfg)) (repo_ownr cfg)
                                 (repo_name cfg) (gh_token cfg) w]\<rparr>"
    using review_title_body_run [of p cfg w] by blast
  have out: "stdout (snd (review_title_body p cfg w)) = stdout w @ lines" unfolding sn by simp
  show "review_title_body p (cfg\<lparr>verbose := v\<rparr>) (w\<lparr>stdout := (stdout w)[9 := l]\<rparr>)
     = (fst (review_title_body p cfg w),
        (snd (review_title_body p cfg w))
          \<lparr>stdout := (stdout (snd (review_title_body p cfg w)))[9 := l]\<rparr>)"
    unfolding review_title_body_frame [OF assms(1)] out
    using assms(2) by (simp add: list_update_append1)
  show "DEBUG (snd (review_title_body p cfg w))" unfolding sn using assms(1) by simp
  show "9 < length (stdout (snd (review_title_body p cfg w)))" unfolding out using assms(2) by simp
qed

lemma review_files_lockstep:
  assumes "DEBUG w" "9 < length (stdout w)"
  shows "review_files p (cfg\<lparr>verbose := v\<rparr>) (w\<lparr>stdout := (stdout w)[9 := l]\<rparr>)
     = (fst (review_files p cfg w),
        (snd (review_files p cfg w))\<lparr>stdout := (stdout (snd (review_files p cfg w)))[9 := l]\<rparr>)"
  unfolding review_files_frame [OF assms(1)]
  using assms(2) by (simp add: list_update_append1)

lemma main_verbose_debug:
  assumes "debug cfg"
  shows "main p (cfg\<lparr>verbose := v\<rparr>)
     = (fst (main p cfg),
        (snd (main p cfg))\<lparr>stdout := (stdout (snd (main p cfg)))[9 := verbose_line v]\<rparr>)"
proof (cases "max_input_tokens cfg > max_tokens cfg")
  case True
  then have "max_input_tokens (cfg\<lparr>verbose := v\<rparr>) > max_tokens (cfg\<lparr>verbose := v\<rparr>)" by simp
  from main_exit [OF this] main_exit [OF True] show ?thesis
    using after_banner_debug [OF assms]
    by (simp add: print_def list_update_append1)
next
  case False
  let ?c = "cfg\<lparr>verbose := v\<rparr>"
  let ?l = "verbose_line v"
  let ?A = "after_limits cfg"
  have ng: "\<not> max_input_tokens ?c > max_tokens ?c" using False by simp
  have A: "after_limits ?c = ?A\<lparr>stdout := (stdout ?A)[9 := ?l]\<rparr>" "9 < length (stdout ?A)"
    using after_limits_debug [OF assms] by simp_all
  have dA: "DEBUG ?A" using assms by simp
  let ?s1 = "if review_title cfg \<or> review_body cfg
            then review_title_body p cfg ?A else (Inr (), ?A)"
  let ?s1' = "if review_title ?c \<or> review_body ?c
            then review_title_body p ?c (after_limits ?c) else (Inr (), after_limits ?c)"
  obtain r1 w1 where s1: "?s1 = (r1, w1)" by (cases ?s1)
  have s1': "?s1' = (r1, w1\<lparr>stdout := (stdout w1)[9 := ?l]\<rparr>)" and d1: "DEBUG w1"
    and l1: "9 < length (stdout w1)"
  proof -
    show "?s1' = (r1, w1\<lparr>stdout := (stdout w1)[9 := ?l]\<rparr>)"
      using s1 review_title_body_lockstep(1) [OF dA A(2), where p = p and cfg = cfg and v = v and l = ?l] A(1)
      by (cases "review_title cfg \<or> review_body cfg") auto
    show "DEBUG w1"
      using s1 review_title_body_lockstep(2) [OF dA A(2), where p = p and cfg = cfg] dA
      by (cases "review_title cfg \<or> review_body cfg") auto
    show "9 < length (stdout w1)"
      using s1 review_title_body_lockstep(3) [OF dA A(2), where p = p and cfg = cfg] A(2)
      by (cases "review_title cfg \<or> review_body cfg") auto
  qed
  obtain r2 w2 where s2: "review_files p cfg w1 = (r2, w2)" by (cases "review_files p cfg w1")
  have s2': "review_files p ?c (w1\<lparr>stdout := (stdout w1)[9 := ?l]\<rparr>)
      = (r2, w2\<lparr>stdout := (stdout w2)[9 := ?l]\<rparr>)"
    using review_files_lockstep [OF d1 l1, where p = p and cfg = cfg and v = v and l = ?l] s2 by simp
  have m: "main p cfg =
     (case r1 of Inl e \<Rightarrow> (Raised e, w1)
      | Inr u \<Rightarrow> (if review_diffs cfg \<noteq> False
           then (case r2 of Inl e \<Rightarrow> (Raised e, w2) | Inr u \<Rightarrow> (Returned, w2))
           else (Returned, w1)))"
    unfolding main_run [OF False] s1 by (simp add: s2 split: sum.splits)
  have m': "main p ?c =
     (case r1 of Inl e \<Rightarrow> (Raised e, w1\<lparr>stdout := (stdout w1)[9 := ?l]\<rparr>)
      | Inr u \<Rightarrow> (if review_diffs cfg \<noteq> False
           then (case r2 of Inl e \<Rightarrow> (Raised e, w2\<lparr>stdout := (stdout w2)[9 := ?l]\<rparr>)
                 | Inr u \<Rightarrow> (Returned, w2\<lparr>stdout := (stdout w2)[9 := ?l]\<rparr>))
           else (Returned, w1\<lparr>stdout := (stdout w1)[9 := ?l]\<rparr>)))"
    unfolding main_run [OF ng] s1' by (simp add: s2' split: sum.splits)
  show ?thesis unfolding m m' by (simp split: sum.splits)
qed


lemma main_DEBUG: "DEBUG (snd (main p cfg)) = debug cfg"
proof (cases "max_input_tokens cfg > max_tokens cfg")
  case True
  then show ?thesis by (simp add: main_exit)
next
  case False
  obtain lines files where
    "snd (main p cfg) = (after_limits cfg)\<lparr>stdout := stdout (after_limits cfg) @ lines,
         trace := (if review_title cfg \<or> review_body cfg then [main_pr_exchange p cfg] else [])
                    @ files\<rparr>"
    using main_run_shape [OF False, of p] by blast
  then show ?thesis by simp
qed

text \<open>
  Claim C10: \<open>printout\<close> prints its text if and only if its \<open>mode\<close> argument or the
  global \<open>DEBUG\<close> is true; \<open>main\<close> sets \<open>DEBUG\<close> to the \<open>debug\<close> option; and with
  \<open>debug\<close> set, \<open>verbose\<close> makes no difference to a run except in the line of the debug
  block that shows it: outcome, HTTP exchanges and every other printed message are those
  of the verbose run.
\<close>

theorem debug_overrides_verbose:
  "printout s mode w = (if mode \<or> DEBUG w then print s w else w)
   \<and> (stdout (printout s mode w) = stdout w @ [s]) = (mode \<or> DEBUG w)
   \<and> DEBUG (snd (main p cfg)) = debug cfg
   \<and> (debug cfg \<longrightarrow>
        main p (cfg\<lparr>verbose := v\<rparr>)
          = (fst (main p cfg),
             (snd (main p cfg))\<lparr>stdout := (stdout (snd (main p cfg)))[9 := verbose_line v]\<rparr>))"
  using main_verbose_debug [of cfg p v] by (simp add: printout_eq main_DEBUG)

text \<open>
  With \<open>--debug\<close> and without \<open>--verbose\<close>, against the mocked metadata endpoint, the
  review messages are printed.
\<close>

lemma main_mock_metadata_debug:
  "stdout (snd (main mock_metadata debug_config))
     = stdout (after_banner debug_config)
        @ [warn_message, lit ''Reviewing the title:'', [9] @ lit ''Fix bug'',
           lit ''Reviewing the body:'', [9] @ lit ''Closes #1'']"
proof -
  have ng: "\<not> max_input_tokens debug_config > max_tokens debug_config"
    by (simp add: debug_config_def default_config_def)
  have r: "received (pr_exchange mock_metadata (str_int (pr_number debug_config))
             (repo_ownr debug_config) (repo_name debug_config) (gh_token debug_config)
             (after_limits debug_config))
       = Some (Response 200 (Some (JObj
           [(lit ''title'', JStr (lit ''Fix bug'')), (lit ''body'', JStr (lit ''Closes #1''))])))"
    by (simp add: pr_exchange_def mock_metadata_def)
  have t: "py_getitem (JObj [(lit ''title'', JStr (lit ''Fix bug'')),
                             (lit ''body'', JStr (lit ''Closes #1''))]) (lit ''title'')
             = Inr (JStr (lit ''Fix bug''))"
    by (simp add: py_getitem_def)
  have b: "py_getitem (JObj [(lit ''title'', JStr (lit ''Fix bug'')),
                             (lit ''body'', JStr (lit ''Closes #1''))]) (lit ''body'')
             = Inr (JStr (lit ''Closes #1''))"
    by (simp add: py_getitem_def lit_def)
  show ?thesis
    unfolding main_run [OF ng]
    using review_title_body_ok [OF r _ _ t b]
    by (simp add: debug_config_def default_config_def title_body_lines_def format_json_def
        after_limits_def)
qed

theorem debug_overrides_verbose_witness:
  "debug debug_config \<and> \<not> verbose debug_config
   \<and> main mock_metadata (debug_config\<lparr>verbose := True\<rparr>)
       = (fst (main mock_metadata debug_config),
          (snd (main mock_metadata debug_config))
            \<lparr>stdout := (stdout (snd (main mock_metadata debug_config)))[9 := verbose_line True]\<rparr>)
   \<and> stdout (snd (main mock_metadata debug_config))
       = stdout (after_banner debug_config)
          @ [warn_message, lit ''Reviewing the title:'', [9] @ lit ''Fix bug'',
             lit ''Reviewing the body:'', [9] @ lit ''Closes #1'']"
  using debug_overrides_verbose [of _ _ _ mock_metadata debug_config True]
    main_mock_metadata_debug
  by (simp add: debug_config_def default_config_def)

end
